theory Spec2Isabelle
  imports Complex_Main "HOL-Library.Word"
begin

section \<open>Basic data of the example application\<close>

text \<open>
  The Go sources are \<^verbatim>\<open>examples/exampleapp.go\<close> (the application shell, the
  renderable, the shader loader and the cube builder) and the demo's \<^verbatim>\<open>main\<close>
  file (the per-frame update). Machine integers are words; \<^verbatim>\<open>float32\<close> values are
  elements of a type \<open>'f\<close> on which the embedded code performs no arithmetic of its
  own: it only stores the literals \<open>0\<close>, \<open>1\<close> and \<open>-1\<close> and the values it is handed.
\<close>

type_synonym uint32 = "32 word"

text \<open>An \<^verbatim>\<open>int32\<close> is a 32-bit word read in two's complement (\<open>sint\<close>); the
  sentinel \<open>-1\<close> is the word of all ones.\<close>

type_synonym int32 = "32 word"

text \<open>\<^verbatim>\<open>mgl.Vec3\<close> and \<^verbatim>\<open>mgl.Vec4\<close> are arrays of three and four floats; the code
  reads them at the constant indexes \<open>0\<close>, \<open>1\<close>, \<open>2\<close> (and \<open>3\<close>).\<close>

datatype 'f Vec3 = Vec3 (at0: 'f) (at1: 'f) (at2: 'f)

datatype 'f Vec4 = Vec4 'f 'f 'f 'f

text \<open>\<^verbatim>\<open>mgl.Quat\<close> is the struct \<^verbatim>\<open>{W float32; V Vec3}\<close>, as the literal in
  \<^verbatim>\<open>updateObjects\<close> shows.\<close>

record 'f Quat =
  W :: 'f
  V :: "'f Vec3"

subsection \<open>The math library, as a parameter\<close>

text \<open>
  \<^verbatim>\<open>mgl32\<close> (go-gl/mathgl) is an imported package. The four operations of it that
  \<^verbatim>\<open>GetTransformMat4\<close> calls are the fields of a record that the embedded function
  takes as its first argument; \<open>'m\<close> is the library's \<^verbatim>\<open>Mat4\<close>.
\<close>

record ('f, 'm) mgl =
  Scale3D :: "'f \<Rightarrow> 'f \<Rightarrow> 'f \<Rightarrow> 'm"
  Translate3D :: "'f \<Rightarrow> 'f \<Rightarrow> 'f \<Rightarrow> 'm"
  Quat_Mat4 :: "'f Quat \<Rightarrow> 'm"
  Mul4 :: "'m \<Rightarrow> 'm \<Rightarrow> 'm"

subsection \<open>Renderable\<close>

record 'f Renderable =
  Shader :: uint32
  Tex0 :: uint32
  Color :: "'f Vec4"
  Vao :: uint32
  VertVBO :: uint32
  UvVBO :: uint32
  NormsVBO :: uint32
  ElementsVBO :: uint32
  FaceCount :: int
  Scale :: "'f Vec3"
  Location :: "'f Vec3"
  Rotation :: "'f Quat"
  LocalRotation :: "'f Quat"

text \<open>\<^verbatim>\<open>new(Renderable)\<close> zeroes every field; \<^verbatim>\<open>NewRenderable\<close> then sets the scale.\<close>

definition zero_Renderable :: "('f::zero) Renderable" where
  "zero_Renderable =
     \<lparr>Shader = 0, Tex0 = 0, Color = Vec4 0 0 0 0, Vao = 0, VertVBO = 0, UvVBO = 0,
      NormsVBO = 0, ElementsVBO = 0, FaceCount = 0,
      Scale = Vec3 0 0 0, Location = Vec3 0 0 0,
      Rotation = \<lparr>W = 0, V = Vec3 0 0 0\<rparr>,
      LocalRotation = \<lparr>W = 0, V = Vec3 0 0 0\<rparr>\<rparr>"

definition NewRenderable :: "('f::{zero,one}) Renderable" where
  "NewRenderable = (let r = zero_Renderable in r\<lparr>Scale := Vec3 1 1 1\<rparr>)"

definition GetTransformMat4 :: "('f, 'm) mgl \<Rightarrow> 'f Renderable \<Rightarrow> 'm" where
  "GetTransformMat4 lib r =
     (let scaleMat = Scale3D lib (at0 (Scale r)) (at1 (Scale r)) (at2 (Scale r));
          transMat = Translate3D lib (at0 (Location r)) (at1 (Location r)) (at2 (Location r));
          localRotMat = Quat_Mat4 lib (LocalRotation r);
          rotMat = Quat_Mat4 lib (Rotation r);
          modelTransform = Mul4 lib (Mul4 lib (Mul4 lib rotMat transMat) localRotMat) scaleMat
      in modelTransform)"

section \<open>The uniform and attribute location caches\<close>

text \<open>
  The two introspection calls of the GL driver are a parameter: for a program handle and
  a NUL-terminated name they give the slot, or \<open>-1\<close> when the program has no such name.
\<close>

record gl_introspection =
  GetUniformLocation :: "uint32 \<Rightarrow> string \<Rightarrow> int32"
  GetAttribLocation :: "uint32 \<Rightarrow> string \<Rightarrow> int32"

text \<open>Every introspection call that reaches the driver is appended to a log, so that
  the number of calls can be counted.\<close>

datatype gl_query = UniformQuery uint32 string | AttribQuery uint32 string

text \<open>The package-level variables \<^verbatim>\<open>uniCache\<close> and \<^verbatim>\<open>attrCache\<close>, both of type
  \<^verbatim>\<open>map[string]int32\<close>, and the driver's log.\<close>

record caches =
  uniCache :: "string \<rightharpoonup> int32"
  attrCache :: "string \<rightharpoonup> int32"
  queries :: "gl_query list"

text \<open>Both maps are made empty when the package is initialised.\<close>

definition init_caches :: caches where
  "init_caches = \<lparr>uniCache = Map.empty, attrCache = Map.empty, queries = []\<rparr>"

definition getUniformLocation ::
    "gl_introspection \<Rightarrow> uint32 \<Rightarrow> string \<Rightarrow> caches \<Rightarrow> int32 \<times> caches" where
  "getUniformLocation gl prog name st =
     (case uniCache st name of
        Some ul \<Rightarrow> (ul, st)
      | None \<Rightarrow>
          (let uniGLName = name @ [CHR 0x00];
               ul = GetUniformLocation gl prog uniGLName
           in (ul, st\<lparr>uniCache := (uniCache st)(name \<mapsto> ul),
                        queries := queries st @ [UniformQuery prog uniGLName]\<rparr>)))"

definition getAttribLocation ::
    "gl_introspection \<Rightarrow> uint32 \<Rightarrow> string \<Rightarrow> caches \<Rightarrow> int32 \<times> caches" where
  "getAttribLocation gl prog name st =
     (case attrCache st name of
        Some al \<Rightarrow> (al, st)
      | None \<Rightarrow>
          (let attrGLName = name @ [CHR 0x00];
               al = GetAttribLocation gl prog attrGLName
           in (al, st\<lparr>attrCache := (attrCache st)(name \<mapsto> al),
                        queries := queries st @ [AttribQuery prog attrGLName]\<rparr>)))"

text \<open>A sequence of lookups, as a caller such as \<^verbatim>\<open>Draw\<close> makes them one after the
  other; the slots they return are dropped, the caches and the log are kept.\<close>

datatype lookup = LookupUniform uint32 string | LookupAttrib uint32 string

fun lookup_step :: "gl_introspection \<Rightarrow> lookup \<Rightarrow> caches \<Rightarrow> caches" where
  "lookup_step gl (LookupUniform prog name) st = snd (getUniformLocation gl prog name st)"
| "lookup_step gl (LookupAttrib prog name) st = snd (getAttribLocation gl prog name st)"

definition lookups :: "gl_introspection \<Rightarrow> lookup list \<Rightarrow> caches \<Rightarrow> caches" where
  "lookups gl ls st = fold (lookup_step gl) ls st"

text \<open>A driver with two programs that both declare \<^verbatim>\<open>MVP_MATRIX\<close> and
  \<^verbatim>\<open>VERTEX_POSITION\<close>, at different slots; program 2 has no \<^verbatim>\<open>DIFFUSE_TEX\<close> and no
  \<^verbatim>\<open>VERTEX_UV_0\<close>, program 1 has both.\<close>

definition two_programs :: gl_introspection where
  "two_programs =
     \<lparr>GetUniformLocation = (\<lambda>prog name.
        if prog = 1 \<and> name = ''MVP_MATRIX'' @ [CHR 0x00] then 0
        else if prog = 1 \<and> name = ''DIFFUSE_TEX'' @ [CHR 0x00] then 1
        else if prog = 2 \<and> name = ''MVP_MATRIX'' @ [CHR 0x00] then 3
        else - 1),
      GetAttribLocation = (\<lambda>prog name.
        if prog = 1 \<and> name = ''VERTEX_POSITION'' @ [CHR 0x00] then 0
        else if prog = 1 \<and> name = ''VERTEX_UV_0'' @ [CHR 0x00] then 1
        else if prog = 2 \<and> name = ''VERTEX_POSITION'' @ [CHR 0x00] then 2
        else - 1)\<rparr>"


text \<open>The five lookups of one \<^verbatim>\<open>Draw\<close> call, in the order it makes them.\<close>

definition draw_lookups :: "uint32 \<Rightarrow> lookup list" where
  "draw_lookups prog =
     [LookupUniform prog ''MVP_MATRIX'', LookupUniform prog ''DIFFUSE_TEX'',
      LookupUniform prog ''DIFFUSE_COLOR'', LookupAttrib prog ''VERTEX_POSITION'',
      LookupAttrib prog ''VERTEX_UV_0'']"

text \<open>The driver calls that were logged between two states.\<close>

definition new_queries :: "caches \<Rightarrow> caches \<Rightarrow> gl_query list" where
  "new_queries st st' = drop (length (queries st)) (queries st')"


section \<open>The shader loader\<close>

datatype shader_type = VERTEX_SHADER | FRAGMENT_SHADER

text \<open>
  The driver's compiler and linker are a parameter: the status words that
  \<^verbatim>\<open>GetShaderiv\<close> and \<^verbatim>\<open>GetProgramiv\<close> report for the given NUL-terminated sources,
  and the text that \<^verbatim>\<open>GetShaderInfoLog\<close> and \<^verbatim>\<open>GetProgramInfoLog\<close> leave in the log
  buffer.
\<close>

record gl_compiler =
  COMPILE_STATUS :: "shader_type \<Rightarrow> string \<Rightarrow> int32"
  shader_info_log :: "shader_type \<Rightarrow> string \<Rightarrow> string"
  LINK_STATUS :: "string \<Rightarrow> string \<Rightarrow> int32"
  program_info_log :: "string \<Rightarrow> string \<Rightarrow> string"

definition GL_FALSE :: int32 where
  "GL_FALSE = 0"

text \<open>The calls of \<^verbatim>\<open>LoadShaderProgram\<close> that create, change or delete a GL object, and
  its \<^verbatim>\<open>fmt.Println\<close>, in the order they happen.\<close>

datatype gl_call =
    CreateProgram uint32
  | CreateShader shader_type uint32
  | ShaderSource uint32 string
  | CompileShader uint32
  | AttachShader uint32 uint32
  | LinkProgram uint32
  | DeleteShader uint32
  | Println string

text \<open>The GL context hands out object names from a counter and records the calls.\<close>

record gl_objects =
  next_name :: uint32
  calls :: "gl_call list"

definition gl_start :: gl_objects where
  "gl_start = \<lparr>next_name = 1, calls = []\<rparr>"

definition glCreateProgram :: "gl_objects \<Rightarrow> uint32 \<times> gl_objects" where
  "glCreateProgram s =
     (next_name s, s\<lparr>next_name := next_name s + 1, calls := calls s @ [CreateProgram (next_name s)]\<rparr>)"

definition glCreateShader :: "shader_type \<Rightarrow> gl_objects \<Rightarrow> uint32 \<times> gl_objects" where
  "glCreateShader t s =
     (next_name s, s\<lparr>next_name := next_name s + 1, calls := calls s @ [CreateShader t (next_name s)]\<rparr>)"

definition gl_do :: "gl_call \<Rightarrow> gl_objects \<Rightarrow> gl_objects" where
  "gl_do c s = s\<lparr>calls := calls s @ [c]\<rparr>"

text \<open>A \<^verbatim>\<open>return\<close> runs the deferred \<^verbatim>\<open>gl.DeleteShader\<close> calls registered so far, the
  last registered first; \<open>ds\<close> lists their arguments in that order.\<close>

definition return_deferred :: "uint32 list \<Rightarrow> 'a \<Rightarrow> gl_objects \<Rightarrow> 'a \<times> gl_objects" where
  "return_deferred ds res s = (res, fold (\<lambda>sh. gl_do (DeleteShader sh)) ds s)"

definition LoadShaderProgram ::
    "gl_compiler \<Rightarrow> string \<Rightarrow> string \<Rightarrow> gl_objects \<Rightarrow> (string + uint32) \<times> gl_objects" where
  "LoadShaderProgram gl vertShader fragShader s0 =
     (let (prog, s1) = glCreateProgram s0;
          (vs, s2) = glCreateShader VERTEX_SHADER s1;
          cVertShader = vertShader @ [CHR 0x00];
          s3 = gl_do (ShaderSource vs cVertShader) s2;
          s4 = gl_do (CompileShader vs) s3;
          status = COMPILE_STATUS gl VERTEX_SHADER cVertShader
      in if status = GL_FALSE then
           (let log = shader_info_log gl VERTEX_SHADER cVertShader;
                err = ''Failed to compile the vertex shader!'' @ [CHR 0x0A] @ log;
                s5 = gl_do (Println err) s4
            in return_deferred [] (Inl err) s5)
         else
           (let (fs, s5) = glCreateShader FRAGMENT_SHADER s4;
                cFragShader = fragShader @ [CHR 0x00];
                s6 = gl_do (ShaderSource fs cFragShader) s5;
                s7 = gl_do (CompileShader fs) s6;
                status = COMPILE_STATUS gl FRAGMENT_SHADER cFragShader
            in if status = GL_FALSE then
                 (let log = shader_info_log gl FRAGMENT_SHADER cFragShader;
                      err = ''Failed to compile the fragment shader!'' @ [CHR 0x0A] @ log;
                      s8 = gl_do (Println err) s7
                  in return_deferred [vs] (Inl err) s8)
               else
                 (let s8 = gl_do (AttachShader prog vs) s7;
                      s9 = gl_do (AttachShader prog fs) s8;
                      s10 = gl_do (LinkProgram prog) s9;
                      status = LINK_STATUS gl cVertShader cFragShader
                  in if status = GL_FALSE then
                       (let log = program_info_log gl cVertShader cFragShader;
                            error = ''Failed to link the program!'' @ [CHR 0x0A] @ log;
                            s11 = gl_do (Println error) s10
                        in return_deferred [fs, vs] (Inl error) s11)
                     else return_deferred [fs, vs] (Inr prog) s10)))"

text \<open>The shader objects that a sequence of calls has created and not passed to
  \<^verbatim>\<open>gl.DeleteShader\<close>.\<close>

fun unreleased_shaders :: "gl_call list \<Rightarrow> uint32 list" where
  "unreleased_shaders [] = []"
| "unreleased_shaders (CreateShader t sh # cs) =
     (if DeleteShader sh \<in> set cs then unreleased_shaders cs else sh # unreleased_shaders cs)"
| "unreleased_shaders (c # cs) = unreleased_shaders cs"

text \<open>A driver that rejects the source text \<^verbatim>\<open>void main() {\<close> at either stage, and
  refuses to link a fragment stage that reads \<^verbatim>\<open>in vec4 missing;\<close>.\<close>

definition strict_compiler :: gl_compiler where
  "strict_compiler =
     \<lparr>COMPILE_STATUS = (\<lambda>t src. if src = ''void main() {'' @ [CHR 0x00] then 0 else 1),
      shader_info_log = (\<lambda>t src. ''0:1: syntax error'' @ [CHR 0x00]),
      LINK_STATUS = (\<lambda>v f. if f = ''in vec4 missing;'' @ [CHR 0x00] then 0 else 1),
      program_info_log = (\<lambda>v f. ''unresolved input'' @ [CHR 0x00])\<rparr>"

section \<open>The cube builder\<close>

text \<open>
  \<^verbatim>\<open>CreateCube\<close> fills four array literals and uploads each to a GL buffer object. The
  buffer part of the GL context is modelled as a store: a name counter, the buffer bound
  to each target, and the byte size and the data last written to each buffer.
\<close>

datatype buffer_target = ARRAY_BUFFER | ELEMENT_ARRAY_BUFFER

datatype 'f buffer_data = Floats "'f list" | Uints "uint32 list"

record 'f gl_buffers =
  next_buffer :: uint32
  bound :: "buffer_target \<Rightarrow> uint32"
  store :: "uint32 \<rightharpoonup> int \<times> 'f buffer_data"

definition glGenVertexArrays :: "'f gl_buffers \<Rightarrow> uint32 \<times> 'f gl_buffers" where
  "glGenVertexArrays s = (next_buffer s, s\<lparr>next_buffer := next_buffer s + 1\<rparr>)"

definition glGenBuffers :: "'f gl_buffers \<Rightarrow> uint32 \<times> 'f gl_buffers" where
  "glGenBuffers s = (next_buffer s, s\<lparr>next_buffer := next_buffer s + 1\<rparr>)"

definition glBindBuffer :: "buffer_target \<Rightarrow> uint32 \<Rightarrow> 'f gl_buffers \<Rightarrow> 'f gl_buffers" where
  "glBindBuffer target name s = s\<lparr>bound := (bound s)(target := name)\<rparr>"

definition glBufferData ::
    "buffer_target \<Rightarrow> int \<Rightarrow> 'f buffer_data \<Rightarrow> 'f gl_buffers \<Rightarrow> 'f gl_buffers" where
  "glBufferData target nbytes dat s = s\<lparr>store := (store s)(bound s target \<mapsto> (nbytes, dat))\<rparr>"

text \<open>The four array literals, row by row as the source writes them.\<close>

definition cube_verts :: "'f \<Rightarrow> 'f \<Rightarrow> 'f \<Rightarrow> 'f \<Rightarrow> 'f \<Rightarrow> 'f \<Rightarrow> 'f list" where
  "cube_verts xmin ymin zmin xmax ymax zmax =
     [xmax, ymax, zmax, xmin, ymax, zmax, xmin, ymin, zmax, xmax, ymin, zmax,
      xmax, ymax, zmin, xmax, ymax, zmax, xmax, ymin, zmax, xmax, ymin, zmin,
      xmax, ymax, zmin, xmin, ymax, zmin, xmin, ymax, zmax, xmax, ymax, zmax,
      xmin, ymax, zmax, xmin, ymax, zmin, xmin, ymin, zmin, xmin, ymin, zmax,
      xmax, ymin, zmax, xmin, ymin, zmax, xmin, ymin, zmin, xmax, ymin, zmin,
      xmin, ymax, zmin, xmax, ymax, zmin, xmax, ymin, zmin, xmin, ymin, zmin]"

definition cube_indexes :: "uint32 list" where
  "cube_indexes =
     [0, 1, 2, 2, 3, 0,
      4, 5, 6, 6, 7, 4,
      8, 9, 10, 10, 11, 8,
      12, 13, 14, 14, 15, 12,
      16, 17, 18, 18, 19, 16,
      20, 21, 22, 22, 23, 20]"

definition cube_uvs :: "('f::{zero,one}) list" where
  "cube_uvs =
     [1, 1, 0, 1, 0, 0, 1, 0,
      1, 1, 0, 1, 0, 0, 1, 0,
      1, 1, 0, 1, 0, 0, 1, 0,
      1, 1, 0, 1, 0, 0, 1, 0,
      1, 1, 0, 1, 0, 0, 1, 0,
      1, 1, 0, 1, 0, 0, 1, 0]"

definition cube_normals :: "('f::{zero,one,uminus}) list" where
  "cube_normals =
     [0, 0, 1, 0, 0, 1, 0, 0, 1, 0, 0, 1,
      1, 0, 0, 1, 0, 0, 1, 0, 0, 1, 0, 0,
      0, 1, 0, 0, 1, 0, 0, 1, 0, 0, 1, 0,
      - 1, 0, 0, - 1, 0, 0, - 1, 0, 0, - 1, 0, 0,
      0, - 1, 0, 0, - 1, 0, 0, - 1, 0, 0, - 1, 0,
      0, 0, - 1, 0, 0, - 1, 0, 0, - 1, 0, 0, - 1]"

definition CreateCube ::
    "'f \<Rightarrow> 'f \<Rightarrow> 'f \<Rightarrow> 'f \<Rightarrow> 'f \<Rightarrow> 'f \<Rightarrow> 'f gl_buffers
       \<Rightarrow> ('f::{zero,one,uminus}) Renderable \<times> 'f gl_buffers" where
  "CreateCube xmin ymin zmin xmax ymax zmax s0 =
     (let verts = cube_verts xmin ymin zmin xmax ymax zmax;
          indexes = cube_indexes;
          uvs = cube_uvs;
          normals = cube_normals;
          r = NewRenderable;
          (vao, s1) = glGenVertexArrays s0;
          r = r\<lparr>Vao := vao\<rparr>;
          r = r\<lparr>FaceCount := 12\<rparr>;
          floatSize = 4;
          uintSize = 4;
          (vbo, s2) = glGenBuffers s1;
          r = r\<lparr>VertVBO := vbo\<rparr>;
          s3 = glBindBuffer ARRAY_BUFFER (VertVBO r) s2;
          s4 = glBufferData ARRAY_BUFFER (floatSize * int (length verts)) (Floats verts) s3;
          (vbo, s5) = glGenBuffers s4;
          r = r\<lparr>UvVBO := vbo\<rparr>;
          s6 = glBindBuffer ARRAY_BUFFER (UvVBO r) s5;
          s7 = glBufferData ARRAY_BUFFER (floatSize * int (length uvs)) (Floats uvs) s6;
          (vbo, s8) = glGenBuffers s7;
          r = r\<lparr>NormsVBO := vbo\<rparr>;
          s9 = glBindBuffer ARRAY_BUFFER (NormsVBO r) s8;
          s10 = glBufferData ARRAY_BUFFER (floatSize * int (length normals)) (Floats normals) s9;
          (vbo, s11) = glGenBuffers s10;
          r = r\<lparr>ElementsVBO := vbo\<rparr>;
          s12 = glBindBuffer ELEMENT_ARRAY_BUFFER (ElementsVBO r) s11;
          s13 = glBufferData ELEMENT_ARRAY_BUFFER (uintSize * int (length indexes))
                  (Uints indexes) s12
      in (r, s13))"

text \<open>Reading a planar float buffer three values at a time, and the four vertices of
  the \<open>k\<close>-th face (faces are numbered in the order of the rows: front, right, top,
  left, bottom, back).\<close>

fun triples :: "'a list \<Rightarrow> 'a Vec3 list" where
  "triples (x # y # z # xs) = Vec3 x y z # triples xs"
| "triples xs = []"

definition face :: "nat \<Rightarrow> 'a list \<Rightarrow> 'a Vec3 list" where
  "face k xs = take 4 (drop (4 * k) (triples xs))"

definition neg_Vec3 :: "('f::uminus) Vec3 \<Rightarrow> 'f Vec3" where
  "neg_Vec3 v = Vec3 (- at0 v) (- at1 v) (- at2 v)"

definition axis_units :: "('f::{zero,one,uminus}) Vec3 list" where
  "axis_units =
     [Vec3 1 0 0, Vec3 (- 1) 0 0, Vec3 0 1 0, Vec3 0 (- 1) 0, Vec3 0 0 1, Vec3 0 0 (- 1)]"

section \<open>The per-frame physics update\<close>

text \<open>
  The demo's update callback drives the physics package through four calls. The
  package is a parameter; of its data the code reads only \<^verbatim>\<open>Body.Position\<close> (indexes
  0 to 2) and \<^verbatim>\<open>Body.Orientation\<close> (indexes 0 to 3). \<open>'r\<close> is the package's
  \<^verbatim>\<open>Real\<close>, \<open>'p\<close> its collision plane, \<open>'k\<close> its contact; \<open>'b\<close> and \<open>'c\<close> stand
  for the fields of the body and of the collider that the code never touches.
\<close>

datatype 'r m_Quat = m_Quat (qat0: 'r) (qat1: 'r) (qat2: 'r) (qat3: 'r)

record ('r, 'b) RigidBody =
  Position :: "'r Vec3"
  Orientation :: "'r m_Quat"
  body_rest :: 'b

record ('r, 'b, 'c) CollisionCube =
  Body :: "('r, 'b) RigidBody"
  cube_rest :: 'c

record ('d, 'f, 'r, 'b, 'c, 'p, 'k) cubez =
  Real_of :: "'d \<Rightarrow> 'r"
  float32_of :: "'r \<Rightarrow> 'f"
  Integrate :: "'r \<Rightarrow> ('r, 'b) RigidBody \<Rightarrow> ('r, 'b) RigidBody"
  CalculateDerivedData :: "('r, 'b, 'c) CollisionCube \<Rightarrow> ('r, 'b, 'c) CollisionCube"
  NewCollisionPlane :: "'r Vec3 \<Rightarrow> 'r \<Rightarrow> 'p"
  CheckAgainstHalfSpace :: "('r, 'b, 'c) CollisionCube \<Rightarrow> 'p \<Rightarrow> 'k list \<Rightarrow> bool \<times> 'k list"
  ResolveContacts ::
    "int \<Rightarrow> 'k list \<Rightarrow> 'r \<Rightarrow> ('r, 'b, 'c) CollisionCube \<Rightarrow> ('r, 'b, 'c) CollisionCube"

text \<open>The calls made to the package, in order.\<close>

datatype ('r, 'p, 'k) physics_call =
    Integrate_call 'r
  | CalculateDerivedData_call
  | CheckAgainstHalfSpace_call 'p
  | ResolveContacts_call int "'k list" 'r

text \<open>The package-level variables \<^verbatim>\<open>cube\<close> and \<^verbatim>\<open>cubeCollider\<close>, and the record of
  calls.\<close>

record ('f, 'r, 'b, 'c, 'p, 'k) demo =
  cube :: "'f Renderable"
  cubeCollider :: "('r, 'b, 'c) CollisionCube"
  physics_calls :: "('r, 'p, 'k) physics_call list"

definition updateObjects ::
    "('d, 'f, 'r, 'b, 'c, 'p, 'k) cubez \<Rightarrow> 'd \<Rightarrow> ('f, 'r, 'b, 'c, 'p, 'k) demo
       \<Rightarrow> ('f, 'r, 'b, 'c, 'p, 'k) demo" where
  "updateObjects phys delta g =
     (let g = g\<lparr>cubeCollider := (cubeCollider g)
                  \<lparr>Body := Integrate phys (Real_of phys delta) (Body (cubeCollider g))\<rparr>,
                physics_calls := physics_calls g @ [Integrate_call (Real_of phys delta)]\<rparr>;
          g = g\<lparr>cubeCollider := CalculateDerivedData phys (cubeCollider g),
                physics_calls := physics_calls g @ [CalculateDerivedData_call]\<rparr>;
          g = g\<lparr>cube := (cube g)\<lparr>Location :=
                  Vec3 (float32_of phys (at0 (Position (Body (cubeCollider g)))))
                       (float32_of phys (at1 (Position (Body (cubeCollider g)))))
                       (float32_of phys (at2 (Position (Body (cubeCollider g)))))\<rparr>\<rparr>;
          g = g\<lparr>cube := (cube g)\<lparr>LocalRotation :=
                  \<lparr>W = float32_of phys (qat0 (Orientation (Body (cubeCollider g)))),
                   V = Vec3 (float32_of phys (qat1 (Orientation (Body (cubeCollider g)))))
                            (float32_of phys (qat2 (Orientation (Body (cubeCollider g)))))
                            (float32_of phys (qat3 (Orientation (Body (cubeCollider g)))))\<rparr>\<rparr>\<rparr>
      in g)"

definition generateContacts ::
    "('d, 'f, 'r::{zero,one}, 'b, 'c, 'p, 'k) cubez \<Rightarrow> 'd \<Rightarrow> ('f, 'r, 'b, 'c, 'p, 'k) demo
       \<Rightarrow> (bool \<times> 'k list) \<times> ('f, 'r, 'b, 'c, 'p, 'k) demo" where
  "generateContacts phys delta g =
     (let groundPlane = NewCollisionPlane phys (Vec3 0 1 0) 0
      in (CheckAgainstHalfSpace phys (cubeCollider g) groundPlane [],
          g\<lparr>physics_calls := physics_calls g @ [CheckAgainstHalfSpace_call groundPlane]\<rparr>))"

definition updateCallback ::
    "('d, 'f, 'r::{zero,one}, 'b, 'c, 'p, 'k) cubez \<Rightarrow> 'd \<Rightarrow> ('f, 'r, 'b, 'c, 'p, 'k) demo
       \<Rightarrow> ('f, 'r, 'b, 'c, 'p, 'k) demo" where
  "updateCallback phys delta g =
     (let g = updateObjects phys delta g;
          ((foundContacts, contacts), g) = generateContacts phys delta g
      in if foundContacts then
           g\<lparr>cubeCollider :=
                ResolveContacts phys (int (length contacts) * 8) contacts (Real_of phys delta)
                  (cubeCollider g),
              physics_calls := physics_calls g @
                [ResolveContacts_call (int (length contacts) * 8) contacts (Real_of phys delta)]\<rparr>
         else g)"

text \<open>A physics package to run the update step on: a point that falls by the delta
  per step along \<open>y\<close>; a contact is the depth below the plane, and the resolution puts
  the point back on the plane.\<close>

definition falling_point ::
    "(int, int, int, unit, unit, int Vec3 \<times> int, int) cubez" where
  "falling_point =
     \<lparr>Real_of = (\<lambda>d. d), float32_of = (\<lambda>x. x),
      Integrate = (\<lambda>d b. b\<lparr>Position :=
         Vec3 (at0 (Position b)) (at1 (Position b) - d) (at2 (Position b))\<rparr>),
      CalculateDerivedData = (\<lambda>c. c),
      NewCollisionPlane = (\<lambda>n offset. (n, offset)),
      CheckAgainstHalfSpace = (\<lambda>c plane cs.
         if at1 (Position (Body c)) \<le> snd plane
         then (True, cs @ [snd plane - at1 (Position (Body c))]) else (False, cs)),
      ResolveContacts = (\<lambda>n cs d c. c\<lparr>Body := (Body c)\<lparr>Position :=
         Vec3 (at0 (Position (Body c))) 0 (at2 (Position (Body c)))\<rparr>\<rparr>)\<rparr>"

definition falling_start :: "(int, int, unit, unit, int Vec3 \<times> int, int) demo" where
  "falling_start =
     \<lparr>cube = NewRenderable,
      cubeCollider = \<lparr>Body = \<lparr>Position = Vec3 0 4 0, Orientation = m_Quat 1 0 0 0,
                                body_rest = ()\<rparr>, cube_rest = ()\<rparr>,
      physics_calls = []\<rparr>"

section \<open>The render loop\<close>

text \<open>
  What the loop and its callbacks share: the window's should-close flag, which
  \<^verbatim>\<open>SetShouldClose\<close> sets, and the application's own data \<open>'u\<close>.
\<close>

record 'u world =
  ShouldClose :: bool
  app_data :: 'u

text \<open>A \<^verbatim>\<open>RenderLoopCallback\<close> takes the delta and may change the world; the fields
  \<^verbatim>\<open>OnUpdate\<close> and \<^verbatim>\<open>OnRender\<close> may be \<^verbatim>\<open>nil\<close>. The loop reads no other field of
  \<^verbatim>\<open>ExampleApp\<close> but the window.\<close>

record 'u ExampleApp =
  OnUpdate :: "(real \<Rightarrow> 'u world \<Rightarrow> 'u world) option"
  OnRender :: "(real \<Rightarrow> 'u world \<Rightarrow> 'u world) option"

text \<open>The platform is a parameter: \<open>Now k\<close> is the clock reading, in nanoseconds, that
  the \<open>k\<close>-th call of \<^verbatim>\<open>time.Now\<close> in the loop returns; \<^verbatim>\<open>glfw.PollEvents\<close> runs the
  input handlers, which may set the flag.\<close>

record 'u platform =
  Now :: "nat \<Rightarrow> int"
  PollEvents :: "'u world \<Rightarrow> 'u world"

datatype frame_event =
    ShouldClose_checked bool
  | OnUpdate_called real
  | OnRender_called real
  | SwapBuffers_called
  | PollEvents_called

record 'u loop_state =
  world :: "'u world"
  lastRenderTime :: int
  clock_reads :: nat
  events :: "frame_event list"

text \<open>\<^verbatim>\<open>Time.Sub\<close> gives a \<^verbatim>\<open>Duration\<close>, a 64-bit count of nanoseconds, and
  saturates at its least and greatest value.\<close>

definition time_Sub :: "int \<Rightarrow> int \<Rightarrow> int" where
  "time_Sub t u =
     (let d = t - u
      in if d > 2 ^ 63 - 1 then 2 ^ 63 - 1 else if d < - (2 ^ 63) then - (2 ^ 63) else d)"

text \<open>The delta in seconds; the \<^verbatim>\<open>float64\<close> product is read as the real number it
  rounds.\<close>

definition delta_seconds :: "int \<Rightarrow> real" where
  "delta_seconds deltaNano = real_of_int deltaNano * (1 / 1000000000)"

definition log_event :: "frame_event \<Rightarrow> 'u loop_state \<Rightarrow> 'u loop_state" where
  "log_event e st = st\<lparr>events := events st @ [e]\<rparr>"

definition call_back ::
    "(real \<Rightarrow> 'u world \<Rightarrow> 'u world) option \<Rightarrow> (real \<Rightarrow> frame_event) \<Rightarrow> real
       \<Rightarrow> 'u loop_state \<Rightarrow> 'u loop_state" where
  "call_back cb ev deltaF st =
     (case cb of
        None \<Rightarrow> st
      | Some f \<Rightarrow> log_event (ev deltaF) (st\<lparr>world := f deltaF (world st)\<rparr>))"

text \<open>The body of the \<^verbatim>\<open>for\<close> loop.\<close>

definition loop_body :: "'u ExampleApp \<Rightarrow> 'u platform \<Rightarrow> 'u loop_state \<Rightarrow> 'u loop_state" where
  "loop_body app env st =
     (let loopTime = Now env (clock_reads st);
          st = st\<lparr>clock_reads := clock_reads st + 1\<rparr>;
          deltaNano = time_Sub loopTime (lastRenderTime st);
          deltaF = delta_seconds deltaNano;
          st = call_back (OnUpdate app) OnUpdate_called deltaF st;
          st = call_back (OnRender app) OnRender_called deltaF st;
          st = log_event SwapBuffers_called st;
          st = log_event PollEvents_called (st\<lparr>world := PollEvents env (world st)\<rparr>);
          st = st\<lparr>lastRenderTime := loopTime\<rparr>
      in st)"

text \<open>The loop: the condition is evaluated at the top of each iteration. The loop has
  no bound, so it is a partial function: \<open>None\<close> is a run that never leaves the loop.\<close>

partial_function (option) loop ::
    "'u ExampleApp \<Rightarrow> 'u platform \<Rightarrow> 'u loop_state \<Rightarrow> 'u loop_state option" where
  "loop app env st =
     (if ShouldClose (world st) then Some (log_event (ShouldClose_checked True) st)
      else loop app env (loop_body app env (log_event (ShouldClose_checked False) st)))"

definition loop_start :: "'u platform \<Rightarrow> 'u world \<Rightarrow> 'u loop_state" where
  "loop_start env w = \<lparr>world = w, lastRenderTime = Now env 0, clock_reads = 1, events = []\<rparr>"

definition RenderLoop :: "'u ExampleApp \<Rightarrow> 'u platform \<Rightarrow> 'u world \<Rightarrow> 'u loop_state option" where
  "RenderLoop app env w = loop app env (loop_start env w)"

text \<open>The state at the top of the iteration after \<open>n\<close> passes through the loop, or the
  state in which the loop was left before that.\<close>

fun after_frames ::
    "nat \<Rightarrow> 'u ExampleApp \<Rightarrow> 'u platform \<Rightarrow> 'u loop_state \<Rightarrow> 'u loop_state" where
  "after_frames 0 app env st = st"
| "after_frames (Suc n) app env st =
     (if ShouldClose (world st) then st
      else after_frames n app env (loop_body app env (log_event (ShouldClose_checked False) st)))"

text \<open>The delta that the next iteration computes in a state, and the delta that an
  event carried to a callback.\<close>

definition next_delta :: "'u platform \<Rightarrow> 'u loop_state \<Rightarrow> real" where
  "next_delta env st =
     delta_seconds (time_Sub (Now env (clock_reads st)) (lastRenderTime st))"

fun event_delta :: "frame_event \<Rightarrow> real" where
  "event_delta (OnUpdate_called d) = d"
| "event_delta (OnRender_called d) = d"
| "event_delta e = 0"

text \<open>What calling an optional callback does to the world, and the event it leaves.\<close>

definition run_callback ::
    "(real \<Rightarrow> 'u world \<Rightarrow> 'u world) option \<Rightarrow> real \<Rightarrow> 'u world \<Rightarrow> 'u world" where
  "run_callback cb d w = (case cb of None \<Rightarrow> w | Some f \<Rightarrow> f d w)"

definition callback_events ::
    "(real \<Rightarrow> 'u world \<Rightarrow> 'u world) option \<Rightarrow> frame_event \<Rightarrow> frame_event list" where
  "callback_events cb e = (case cb of None \<Rightarrow> [] | Some f \<Rightarrow> [e])"

text \<open>The loop's clock invariant: the last sample is the reading before the next one,
  and no callback has been handed a negative delta.\<close>

definition clock_inv :: "'u platform \<Rightarrow> 'u loop_state \<Rightarrow> bool" where
  "clock_inv env st \<longleftrightarrow>
     1 \<le> clock_reads st \<and> lastRenderTime st = Now env (clock_reads st - 1) \<and>
     list_all (\<lambda>e. 0 \<le> event_delta e) (events st)"

text \<open>An application whose update callback requests the close (as the key handler
  does) and whose render callback counts the frames it draws; a platform whose clock
  advances by 16 ms per reading and whose event poll changes nothing.\<close>

definition closing_app :: "nat ExampleApp" where
  "closing_app =
     \<lparr>OnUpdate = Some (\<lambda>d w. w\<lparr>ShouldClose := True\<rparr>),
      OnRender = Some (\<lambda>d w. w\<lparr>app_data := Suc (app_data w)\<rparr>)\<rparr>"

definition steady_platform :: "nat platform" where
  "steady_platform = \<lparr>Now = (\<lambda>k. 16000000 * int k), PollEvents = (\<lambda>w. w)\<rparr>"

section \<open>The math library's matrices, in exact arithmetic\<close>

text \<open>
  The operations of mathgl that \<^verbatim>\<open>GetTransformMat4\<close> calls, as that package defines
  them: a \<^verbatim>\<open>Mat4\<close> is an array of 16 floats in column-major order (entry \<open>4 * c + r\<close>
  is row \<open>r\<close> of column \<open>c\<close>), \<^verbatim>\<open>Scale3D\<close> fills the diagonal, \<^verbatim>\<open>Translate3D\<close> the
  last column, \<^verbatim>\<open>Quat.Mat4\<close> is the rotation matrix with the diagonal entries
  \<open>1 - 2yy - 2zz\<close>, \<open>1 - 2xx - 2zz\<close>, \<open>1 - 2xx - 2yy\<close>, and \<^verbatim>\<open>Mul4\<close> is the matrix
  product. The arithmetic is that of a commutative ring in place of \<^verbatim>\<open>float32\<close>; on
  the values 0 and 1, which are all that a fresh Renderable holds, the two agree.
\<close>

type_synonym 'a Mat4 = "'a list"

definition Ident4 :: "('a::{zero,one}) Mat4" where
  "Ident4 = [1, 0, 0, 0,  0, 1, 0, 0,  0, 0, 1, 0,  0, 0, 0, 1]"

definition exact_Scale3D :: "'a \<Rightarrow> 'a \<Rightarrow> 'a \<Rightarrow> ('a::comm_ring_1) Mat4" where
  "exact_Scale3D scaleX scaleY scaleZ =
     [scaleX, 0, 0, 0,  0, scaleY, 0, 0,  0, 0, scaleZ, 0,  0, 0, 0, 1]"

definition exact_Translate3D :: "'a \<Rightarrow> 'a \<Rightarrow> 'a \<Rightarrow> ('a::comm_ring_1) Mat4" where
  "exact_Translate3D Tx Ty Tz =
     [1, 0, 0, 0,  0, 1, 0, 0,  0, 0, 1, 0,  Tx, Ty, Tz, 1]"

definition exact_Quat_Mat4 :: "'a Quat \<Rightarrow> ('a::comm_ring_1) Mat4" where
  "exact_Quat_Mat4 q =
     (let w = W q; x = at0 (V q); y = at1 (V q); z = at2 (V q)
      in [1 - 2 * y * y - 2 * z * z, 2 * x * y + 2 * w * z, 2 * x * z - 2 * w * y, 0,
          2 * x * y - 2 * w * z, 1 - 2 * x * x - 2 * z * z, 2 * y * z + 2 * w * x, 0,
          2 * x * z + 2 * w * y, 2 * y * z - 2 * w * x, 1 - 2 * x * x - 2 * y * y, 0,
          0, 0, 0, 1])"

definition exact_Mul4 :: "('a::comm_ring_1) Mat4 \<Rightarrow> 'a Mat4 \<Rightarrow> 'a Mat4" where
  "exact_Mul4 m1 m2 =
     concat (map (\<lambda>c. map (\<lambda>r.
         m1 ! r * m2 ! (4 * c) + m1 ! (4 + r) * m2 ! (4 * c + 1)
           + m1 ! (8 + r) * m2 ! (4 * c + 2) + m1 ! (12 + r) * m2 ! (4 * c + 3))
       [0, 1, 2, 3]) [0, 1, 2, 3])"

definition mgl_exact :: "('a::comm_ring_1, 'a Mat4) mgl" where
  "mgl_exact =
     \<lparr>Scale3D = exact_Scale3D, Translate3D = exact_Translate3D,
      Quat_Mat4 = exact_Quat_Mat4, Mul4 = exact_Mul4\<rparr>"

text \<open>\<^verbatim>\<open>Mat4.Mul4x1\<close>, the product of a matrix with a column vector.\<close>

fun exact_Mul4x1 :: "('a::comm_ring_1) Mat4 \<Rightarrow> 'a Vec4 \<Rightarrow> 'a Vec4" where
  "exact_Mul4x1 m (Vec4 v0 v1 v2 v3) =
     Vec4 (m ! 0 * v0 + m ! 4 * v1 + m ! 8 * v2 + m ! 12 * v3)
          (m ! 1 * v0 + m ! 5 * v1 + m ! 9 * v2 + m ! 13 * v3)
          (m ! 2 * v0 + m ! 6 * v1 + m ! 10 * v2 + m ! 14 * v3)
          (m ! 3 * v0 + m ! 7 * v1 + m ! 11 * v2 + m ! 15 * v3)"

text \<open>A Renderable scaled by 2, moved to \<open>(1, 2, 3)\<close> and turned by half a turn about
  the world's \<open>z\<close> axis.\<close>

definition turned_renderable :: "int Renderable" where
  "turned_renderable =
     NewRenderable\<lparr>Scale := Vec3 2 2 2, Location := Vec3 1 2 3,
       Rotation := \<lparr>W = 0, V = Vec3 0 0 1\<rparr>, LocalRotation := \<lparr>W = 1, V = Vec3 0 0 0\<rparr>\<rparr>"

section \<open>Transform composition\<close>

text \<open>
  C1. For every Renderable, the world transform is the product
  \<open>Rotation * Translation(Location) * LocalRotation * Scale(Scale)\<close>, multiplied from
  the left in that order with the library's \<^verbatim>\<open>Mul4\<close>: the world rotation is the
  outermost factor and the scale the innermost. This holds for every implementation of
  the four library operations.
\<close>

theorem world_transform_order:
  "GetTransformMat4 lib r =
     Mul4 lib
       (Mul4 lib
          (Mul4 lib (Quat_Mat4 lib (Rotation r))
             (Translate3D lib (at0 (Location r)) (at1 (Location r)) (at2 (Location r))))
          (Quat_Mat4 lib (LocalRotation r)))
       (Scale3D lib (at0 (Scale r)) (at1 (Scale r)) (at2 (Scale r)))"
  by (simp add: GetTransformMat4_def Let_def)

lemma exact_Mul4_entries:
  "exact_Mul4 m1 m2 =
     [m1 ! 0 * m2 ! 0 + m1 ! 4 * m2 ! 1 + m1 ! 8 * m2 ! 2 + m1 ! 12 * m2 ! 3,
      m1 ! 1 * m2 ! 0 + m1 ! 5 * m2 ! 1 + m1 ! 9 * m2 ! 2 + m1 ! 13 * m2 ! 3,
      m1 ! 2 * m2 ! 0 + m1 ! 6 * m2 ! 1 + m1 ! 10 * m2 ! 2 + m1 ! 14 * m2 ! 3,
      m1 ! 3 * m2 ! 0 + m1 ! 7 * m2 ! 1 + m1 ! 11 * m2 ! 2 + m1 ! 15 * m2 ! 3,
      m1 ! 0 * m2 ! 4 + m1 ! 4 * m2 ! 5 + m1 ! 8 * m2 ! 6 + m1 ! 12 * m2 ! 7,
      m1 ! 1 * m2 ! 4 + m1 ! 5 * m2 ! 5 + m1 ! 9 * m2 ! 6 + m1 ! 13 * m2 ! 7,
      m1 ! 2 * m2 ! 4 + m1 ! 6 * m2 ! 5 + m1 ! 10 * m2 ! 6 + m1 ! 14 * m2 ! 7,
      m1 ! 3 * m2 ! 4 + m1 ! 7 * m2 ! 5 + m1 ! 11 * m2 ! 6 + m1 ! 15 * m2 ! 7,
      m1 ! 0 * m2 ! 8 + m1 ! 4 * m2 ! 9 + m1 ! 8 * m2 ! 10 + m1 ! 12 * m2 ! 11,
      m1 ! 1 * m2 ! 8 + m1 ! 5 * m2 ! 9 + m1 ! 9 * m2 ! 10 + m1 ! 13 * m2 ! 11,
      m1 ! 2 * m2 ! 8 + m1 ! 6 * m2 ! 9 + m1 ! 10 * m2 ! 10 + m1 ! 14 * m2 ! 11,
      m1 ! 3 * m2 ! 8 + m1 ! 7 * m2 ! 9 + m1 ! 11 * m2 ! 10 + m1 ! 15 * m2 ! 11,
      m1 ! 0 * m2 ! 12 + m1 ! 4 * m2 ! 13 + m1 ! 8 * m2 ! 14 + m1 ! 12 * m2 ! 15,
      m1 ! 1 * m2 ! 12 + m1 ! 5 * m2 ! 13 + m1 ! 9 * m2 ! 14 + m1 ! 13 * m2 ! 15,
      m1 ! 2 * m2 ! 12 + m1 ! 6 * m2 ! 13 + m1 ! 10 * m2 ! 14 + m1 ! 14 * m2 ! 15,
      m1 ! 3 * m2 ! 12 + m1 ! 7 * m2 ! 13 + m1 ! 11 * m2 ! 14 + m1 ! 15 * m2 ! 15]"
  by (simp add: exact_Mul4_def numeral_2_eq_2 [symmetric] del: One_nat_def)

lemma exact_Mul4x1_Mul4:
  "exact_Mul4x1 (exact_Mul4 a b) v = exact_Mul4x1 a (exact_Mul4x1 b v)"
  by (cases v) (simp add: exact_Mul4_entries algebra_simps)


text \<open>With a matrix-vector product that \<^verbatim>\<open>Mul4\<close> respects, as the exact one does, the
  world transform scales a point first, then turns it locally, then moves it, and turns
  it about the world's origin last.\<close>

lemma world_transform_on_point:
  assumes "\<And>a b v. Mul4x1 (Mul4 lib a b) v = Mul4x1 a (Mul4x1 b v)"
  shows "Mul4x1 (GetTransformMat4 lib r) p =
        Mul4x1 (Quat_Mat4 lib (Rotation r))
          (Mul4x1 (Translate3D lib (at0 (Location r)) (at1 (Location r)) (at2 (Location r)))
             (Mul4x1 (Quat_Mat4 lib (LocalRotation r))
                (Mul4x1 (Scale3D lib (at0 (Scale r)) (at1 (Scale r)) (at2 (Scale r))) p)))"
  by (simp add: GetTransformMat4_def Let_def assms)

lemma world_transform_example:
  "exact_Mul4x1 (GetTransformMat4 mgl_exact turned_renderable) (Vec4 1 0 0 1)
     = Vec4 (- 3) (- 2) 3 1 \<and>
   exact_Mul4x1 (exact_Scale3D 2 2 2) (Vec4 1 0 0 1) = Vec4 2 0 0 (1 :: int) \<and>
   exact_Mul4x1 (exact_Translate3D 1 2 3) (Vec4 2 0 0 1) = Vec4 3 2 3 (1 :: int) \<and>
   exact_Mul4x1 (exact_Quat_Mat4 \<lparr>W = 0, V = Vec3 0 0 1\<rparr>) (Vec4 3 2 3 1)
     = Vec4 (- 3) (- 2) 3 (1 :: int)"
proof -
  have "exact_Mul4x1 (GetTransformMat4 mgl_exact turned_renderable) (Vec4 1 0 0 1) =
        exact_Mul4x1 (Quat_Mat4 mgl_exact (Rotation turned_renderable))
          (exact_Mul4x1 (Translate3D mgl_exact (at0 (Location turned_renderable))
                           (at1 (Location turned_renderable)) (at2 (Location turned_renderable)))
             (exact_Mul4x1 (Quat_Mat4 mgl_exact (LocalRotation turned_renderable))
                (exact_Mul4x1 (Scale3D mgl_exact (at0 (Scale turned_renderable))
                                 (at1 (Scale turned_renderable)) (at2 (Scale turned_renderable)))
                   (Vec4 1 0 0 1))))"
    by (rule world_transform_on_point) (simp add: mgl_exact_def exact_Mul4x1_Mul4)
  then show ?thesis
    by (simp add: mgl_exact_def turned_renderable_def NewRenderable_def zero_Renderable_def
        exact_Quat_Mat4_def exact_Translate3D_def exact_Scale3D_def)
qed

section \<open>Location caches: properties\<close>

lemma getUniformLocation_hit:
  "uniCache st name = Some v \<Longrightarrow> getUniformLocation gl prog name st = (v, st)"
  by (simp add: getUniformLocation_def)

lemma getUniformLocation_miss:
  "uniCache st name = None \<Longrightarrow>
   getUniformLocation gl prog name st =
     (GetUniformLocation gl prog (name @ [CHR 0x00]),
      st\<lparr>uniCache := (uniCache st)(name \<mapsto> GetUniformLocation gl prog (name @ [CHR 0x00])),
         queries := queries st @ [UniformQuery prog (name @ [CHR 0x00])]\<rparr>)"
  by (simp add: getUniformLocation_def Let_def)

lemma getAttribLocation_hit:
  "attrCache st name = Some v \<Longrightarrow> getAttribLocation gl prog name st = (v, st)"
  by (simp add: getAttribLocation_def)

lemma getAttribLocation_miss:
  "attrCache st name = None \<Longrightarrow>
   getAttribLocation gl prog name st =
     (GetAttribLocation gl prog (name @ [CHR 0x00]),
      st\<lparr>attrCache := (attrCache st)(name \<mapsto> GetAttribLocation gl prog (name @ [CHR 0x00])),
         queries := queries st @ [AttribQuery prog (name @ [CHR 0x00])]\<rparr>)"
  by (simp add: getAttribLocation_def Let_def)

lemma getUniformLocation_cached:
  "uniCache (snd (getUniformLocation gl prog name st)) name =
     Some (fst (getUniformLocation gl prog name st))"
  by (cases "uniCache st name") (simp_all add: getUniformLocation_hit getUniformLocation_miss)

lemma getAttribLocation_cached:
  "attrCache (snd (getAttribLocation gl prog name st)) name =
     Some (fst (getAttribLocation gl prog name st))"
  by (cases "attrCache st name") (simp_all add: getAttribLocation_hit getAttribLocation_miss)

text \<open>What one lookup does to the state, whichever function it calls.\<close>

lemma lookup_step_uni_keeps:
  "uniCache st n = Some v \<Longrightarrow> uniCache (lookup_step gl l st) n = Some v"
proof (cases l)
  case (LookupUniform prog name)
  assume "uniCache st n = Some v"
  then show ?thesis unfolding LookupUniform
    by (cases "uniCache st name") (auto simp: getUniformLocation_hit getUniformLocation_miss)
next
  case (LookupAttrib prog name)
  assume "uniCache st n = Some v"
  then show ?thesis unfolding LookupAttrib
    by (cases "attrCache st name") (auto simp: getAttribLocation_hit getAttribLocation_miss)
qed

lemma lookup_step_attr_keeps:
  "attrCache st n = Some v \<Longrightarrow> attrCache (lookup_step gl l st) n = Some v"
proof (cases l)
  case (LookupUniform prog name)
  assume "attrCache st n = Some v"
  then show ?thesis unfolding LookupUniform
    by (cases "uniCache st name") (auto simp: getUniformLocation_hit getUniformLocation_miss)
next
  case (LookupAttrib prog name)
  assume "attrCache st n = Some v"
  then show ?thesis unfolding LookupAttrib
    by (cases "attrCache st name") (auto simp: getAttribLocation_hit getAttribLocation_miss)
qed

lemma lookups_uni_keeps:
  "uniCache st n = Some v \<Longrightarrow> uniCache (lookups gl ls st) n = Some v"
  unfolding lookups_def
  by (induction ls arbitrary: st) (simp_all add: lookup_step_uni_keeps)

lemma lookups_attr_keeps:
  "attrCache st n = Some v \<Longrightarrow> attrCache (lookups gl ls st) n = Some v"
  unfolding lookups_def
  by (induction ls arbitrary: st) (simp_all add: lookup_step_attr_keeps)

lemma lookup_step_queries:
  "\<exists>qs. queries (lookup_step gl l st) = queries st @ qs \<and>
        (\<forall>p n. UniformQuery p (n @ [CHR 0x00]) \<in> set qs \<longrightarrow> uniCache st n = None) \<and>
        (\<forall>p n. AttribQuery p (n @ [CHR 0x00]) \<in> set qs \<longrightarrow> attrCache st n = None)"
proof (cases l)
  case (LookupUniform prog name)
  show ?thesis unfolding LookupUniform
    by (cases "uniCache st name") (auto simp: getUniformLocation_hit getUniformLocation_miss)
next
  case (LookupAttrib prog name)
  show ?thesis unfolding LookupAttrib
    by (cases "attrCache st name") (auto simp: getAttribLocation_hit getAttribLocation_miss)
qed

lemma lookups_queries:
  "\<exists>qs. queries (lookups gl ls st) = queries st @ qs \<and>
        (\<forall>p n. UniformQuery p (n @ [CHR 0x00]) \<in> set qs \<longrightarrow> uniCache st n = None) \<and>
        (\<forall>p n. AttribQuery p (n @ [CHR 0x00]) \<in> set qs \<longrightarrow> attrCache st n = None)"
proof (induction ls arbitrary: st)
  case Nil
  then show ?case by (simp add: lookups_def)
next
  case (Cons l ls)
  obtain qs1 where log1: "queries (lookup_step gl l st) = queries st @ qs1"
    and u1: "\<And>p n. UniformQuery p (n @ [CHR 0x00]) \<in> set qs1 \<Longrightarrow> uniCache st n = None"
    and a1: "\<And>p n. AttribQuery p (n @ [CHR 0x00]) \<in> set qs1 \<Longrightarrow> attrCache st n = None"
    using lookup_step_queries [of gl l st] by blast
  obtain qs2 where log2: "queries (lookups gl ls (lookup_step gl l st)) = queries (lookup_step gl l st) @ qs2"
    and u2: "\<And>p n. UniformQuery p (n @ [CHR 0x00]) \<in> set qs2 \<Longrightarrow> uniCache (lookup_step gl l st) n = None"
    and a2: "\<And>p n. AttribQuery p (n @ [CHR 0x00]) \<in> set qs2 \<Longrightarrow> attrCache (lookup_step gl l st) n = None"
    using Cons.IH [of "lookup_step gl l st"] by blast
  have u2': "uniCache st n = None" if "UniformQuery p (n @ [CHR 0x00]) \<in> set qs2" for p n
  proof (cases "uniCache st n")
    case None then show ?thesis .
  next
    case (Some v)
    from lookup_step_uni_keeps [OF Some, of gl l] u2 [OF that] show ?thesis by simp
  qed
  have a2': "attrCache st n = None" if "AttribQuery p (n @ [CHR 0x00]) \<in> set qs2" for p n
  proof (cases "attrCache st n")
    case None then show ?thesis .
  next
    case (Some v)
    from lookup_step_attr_keeps [OF Some, of gl l] a2 [OF that] show ?thesis by simp
  qed
  have "queries (lookups gl (l # ls) st) = queries st @ (qs1 @ qs2)"
    using log1 log2 by (simp add: lookups_def)
  moreover have "\<forall>p n. UniformQuery p (n @ [CHR 0x00]) \<in> set (qs1 @ qs2) \<longrightarrow> uniCache st n = None"
    using u1 u2' by auto
  moreover have "\<forall>p n. AttribQuery p (n @ [CHR 0x00]) \<in> set (qs1 @ qs2) \<longrightarrow> attrCache st n = None"
    using a1 a2' by auto
  ultimately show ?case by blast
qed

lemma new_queries_uniform:
  "uniCache st n = Some v \<Longrightarrow> UniformQuery p (n @ [CHR 0x00]) \<notin> set (new_queries st (lookups gl ls st))"
  using lookups_queries [of gl ls st] by (auto simp: new_queries_def)

lemma new_queries_attrib:
  "attrCache st n = Some v \<Longrightarrow> AttribQuery p (n @ [CHR 0x00]) \<notin> set (new_queries st (lookups gl ls st))"
  using lookups_queries [of gl ls st] by (auto simp: new_queries_def)











text \<open>
  C6 (as amended). After a lookup of a name with a program, every repeated lookup of
  the same program and name, also after any other lookups, returns the same value and
  leaves the caches and the driver's log as they are; no later lookup sends a query for
  that name to the driver again. When the name is not cached yet and the program does
  not have it, \<open>-1\<close> is returned and cached.
\<close>

theorem location_lookup_idempotent:
  "getUniformLocation gl prog name (lookups gl ls (snd (getUniformLocation gl prog name st)))
     = (fst (getUniformLocation gl prog name st),
        lookups gl ls (snd (getUniformLocation gl prog name st))) \<and>
   getAttribLocation gl prog name (lookups gl ls (snd (getAttribLocation gl prog name st)))
     = (fst (getAttribLocation gl prog name st),
        lookups gl ls (snd (getAttribLocation gl prog name st))) \<and>
   (uniCache st name = None \<and> GetUniformLocation gl prog (name @ [CHR 0x00]) = - 1 \<longrightarrow>
      fst (getUniformLocation gl prog name st) = - 1 \<and>
      uniCache (snd (getUniformLocation gl prog name st)) name = Some (- 1)) \<and>
   (attrCache st name = None \<and> GetAttribLocation gl prog (name @ [CHR 0x00]) = - 1 \<longrightarrow>
      fst (getAttribLocation gl prog name st) = - 1 \<and>
      attrCache (snd (getAttribLocation gl prog name st)) name = Some (- 1)) \<and>
   UniformQuery p (name @ [CHR 0x00])
     \<notin> set (new_queries (snd (getUniformLocation gl prog name st))
               (lookups gl ls (snd (getUniformLocation gl prog name st)))) \<and>
   AttribQuery p (name @ [CHR 0x00])
     \<notin> set (new_queries (snd (getAttribLocation gl prog name st))
               (lookups gl ls (snd (getAttribLocation gl prog name st))))"
proof (intro conjI impI)
  show "getUniformLocation gl prog name (lookups gl ls (snd (getUniformLocation gl prog name st)))
     = (fst (getUniformLocation gl prog name st),
        lookups gl ls (snd (getUniformLocation gl prog name st)))"
    by (rule getUniformLocation_hit [OF lookups_uni_keeps [OF getUniformLocation_cached]])
  show "getAttribLocation gl prog name (lookups gl ls (snd (getAttribLocation gl prog name st)))
     = (fst (getAttribLocation gl prog name st),
        lookups gl ls (snd (getAttribLocation gl prog name st)))"
    by (rule getAttribLocation_hit [OF lookups_attr_keeps [OF getAttribLocation_cached]])
  show "fst (getUniformLocation gl prog name st) = - 1"
    if "uniCache st name = None \<and> GetUniformLocation gl prog (name @ [CHR 0x00]) = - 1"
    using that by (simp add: getUniformLocation_miss)
  show "uniCache (snd (getUniformLocation gl prog name st)) name = Some (- 1)"
    if "uniCache st name = None \<and> GetUniformLocation gl prog (name @ [CHR 0x00]) = - 1"
    using that by (simp add: getUniformLocation_miss)
  show "fst (getAttribLocation gl prog name st) = - 1"
    if "attrCache st name = None \<and> GetAttribLocation gl prog (name @ [CHR 0x00]) = - 1"
    using that by (simp add: getAttribLocation_miss)
  show "attrCache (snd (getAttribLocation gl prog name st)) name = Some (- 1)"
    if "attrCache st name = None \<and> GetAttribLocation gl prog (name @ [CHR 0x00]) = - 1"
    using that by (simp add: getAttribLocation_miss)
  show "UniformQuery p (name @ [CHR 0x00])
     \<notin> set (new_queries (snd (getUniformLocation gl prog name st))
               (lookups gl ls (snd (getUniformLocation gl prog name st))))"
    by (rule new_queries_uniform [OF getUniformLocation_cached])
  show "AttribQuery p (name @ [CHR 0x00])
     \<notin> set (new_queries (snd (getAttribLocation gl prog name st))
               (lookups gl ls (snd (getAttribLocation gl prog name st))))"
    by (rule new_queries_attrib [OF getAttribLocation_cached])
qed

theorem location_lookup_idempotent_witness:
  "getUniformLocation two_programs 2 ''DIFFUSE_TEX''
     (lookups two_programs (draw_lookups 1)
        (snd (getUniformLocation two_programs 2 ''DIFFUSE_TEX'' init_caches)))
     = (- 1, lookups two_programs (draw_lookups 1)
               (snd (getUniformLocation two_programs 2 ''DIFFUSE_TEX'' init_caches))) \<and>
   getAttribLocation two_programs 2 ''VERTEX_UV_0''
     (lookups two_programs (draw_lookups 1)
        (snd (getAttribLocation two_programs 2 ''VERTEX_UV_0'' init_caches)))
     = (- 1, lookups two_programs (draw_lookups 1)
               (snd (getAttribLocation two_programs 2 ''VERTEX_UV_0'' init_caches))) \<and>
   uniCache (snd (getUniformLocation two_programs 2 ''DIFFUSE_TEX'' init_caches)) ''DIFFUSE_TEX''
     = Some (- 1) \<and>
   attrCache (snd (getAttribLocation two_programs 2 ''VERTEX_UV_0'' init_caches)) ''VERTEX_UV_0''
     = Some (- 1) \<and>
   UniformQuery 1 (''DIFFUSE_TEX'' @ [CHR 0x00])
     \<notin> set (new_queries (snd (getUniformLocation two_programs 2 ''DIFFUSE_TEX'' init_caches))
               (lookups two_programs (draw_lookups 1)
                  (snd (getUniformLocation two_programs 2 ''DIFFUSE_TEX'' init_caches)))) \<and>
   AttribQuery 1 (''VERTEX_UV_0'' @ [CHR 0x00])
     \<notin> set (new_queries (snd (getAttribLocation two_programs 2 ''VERTEX_UV_0'' init_caches))
               (lookups two_programs (draw_lookups 1)
                  (snd (getAttribLocation two_programs 2 ''VERTEX_UV_0'' init_caches))))"
proof -
  have u: "uniCache init_caches ''DIFFUSE_TEX'' = None \<and>
           GetUniformLocation two_programs 2 (''DIFFUSE_TEX'' @ [CHR 0x00]) = - 1"
    by (simp add: init_caches_def two_programs_def)
  have a: "attrCache init_caches ''VERTEX_UV_0'' = None \<and>
           GetAttribLocation two_programs 2 (''VERTEX_UV_0'' @ [CHR 0x00]) = - 1"
    by (simp add: init_caches_def two_programs_def)
  show ?thesis
    using u a
      location_lookup_idempotent
        [of two_programs 2 "''DIFFUSE_TEX''" "draw_lookups 1" init_caches 1]
      location_lookup_idempotent
        [of two_programs 2 "''VERTEX_UV_0''" "draw_lookups 1" init_caches 1]
    by simp
qed

text \<open>
  \<open>-1\<close> is not returned for every name that the program lacks: program 2 has neither
  \<^verbatim>\<open>DIFFUSE_TEX\<close> nor \<^verbatim>\<open>VERTEX_UV_0\<close>, but once program 1 has looked them up, the
  lookups with program 2 return program 1's slot 1.
\<close>

theorem absent_name_counterexample:
  "GetUniformLocation two_programs 2 (''DIFFUSE_TEX'' @ [CHR 0x00]) = - 1 \<and>
   fst (getUniformLocation two_programs 2 ''DIFFUSE_TEX''
          (snd (getUniformLocation two_programs 1 ''DIFFUSE_TEX'' init_caches))) = 1 \<and>
   GetAttribLocation two_programs 2 (''VERTEX_UV_0'' @ [CHR 0x00]) = - 1 \<and>
   fst (getAttribLocation two_programs 2 ''VERTEX_UV_0''
          (snd (getAttribLocation two_programs 1 ''VERTEX_UV_0'' init_caches))) = 1 \<and>
   (1 :: int32) \<noteq> - 1"
  by (simp add: init_caches_def two_programs_def getUniformLocation_def getAttribLocation_def)

section \<open>Shader loader: properties\<close>

lemmas LoadShaderProgram_eval =
  LoadShaderProgram_def glCreateProgram_def glCreateShader_def gl_do_def return_deferred_def
  Let_def

lemma LoadShaderProgram_vertex_failure:
  assumes "COMPILE_STATUS gl VERTEX_SHADER (vertShader @ [CHR 0x00]) = GL_FALSE"
  shows "LoadShaderProgram gl vertShader fragShader s =
     (Inl (''Failed to compile the vertex shader!'' @ [CHR 0x0A]
             @ shader_info_log gl VERTEX_SHADER (vertShader @ [CHR 0x00])),
      s\<lparr>next_name := next_name s + 2,
        calls := calls s @
          [CreateProgram (next_name s), CreateShader VERTEX_SHADER (next_name s + 1),
           ShaderSource (next_name s + 1) (vertShader @ [CHR 0x00]),
           CompileShader (next_name s + 1),
           Println (''Failed to compile the vertex shader!'' @ [CHR 0x0A]
                      @ shader_info_log gl VERTEX_SHADER (vertShader @ [CHR 0x00]))]\<rparr>)"
  using assms by (simp add: LoadShaderProgram_eval)

lemma LoadShaderProgram_fragment_failure:
  assumes "COMPILE_STATUS gl VERTEX_SHADER (vertShader @ [CHR 0x00]) \<noteq> GL_FALSE"
    and "COMPILE_STATUS gl FRAGMENT_SHADER (fragShader @ [CHR 0x00]) = GL_FALSE"
  shows "LoadShaderProgram gl vertShader fragShader s =
     (Inl (''Failed to compile the fragment shader!'' @ [CHR 0x0A]
             @ shader_info_log gl FRAGMENT_SHADER (fragShader @ [CHR 0x00])),
      s\<lparr>next_name := next_name s + 3,
        calls := calls s @
          [CreateProgram (next_name s), CreateShader VERTEX_SHADER (next_name s + 1),
           ShaderSource (next_name s + 1) (vertShader @ [CHR 0x00]),
           CompileShader (next_name s + 1),
           CreateShader FRAGMENT_SHADER (next_name s + 2),
           ShaderSource (next_name s + 2) (fragShader @ [CHR 0x00]),
           CompileShader (next_name s + 2),
           Println (''Failed to compile the fragment shader!'' @ [CHR 0x0A]
                      @ shader_info_log gl FRAGMENT_SHADER (fragShader @ [CHR 0x00])),
           DeleteShader (next_name s + 1)]\<rparr>)"
  using assms by (simp add: LoadShaderProgram_eval)

lemma LoadShaderProgram_link_failure:
  assumes "COMPILE_STATUS gl VERTEX_SHADER (vertShader @ [CHR 0x00]) \<noteq> GL_FALSE"
    and "COMPILE_STATUS gl FRAGMENT_SHADER (fragShader @ [CHR 0x00]) \<noteq> GL_FALSE"
    and "LINK_STATUS gl (vertShader @ [CHR 0x00]) (fragShader @ [CHR 0x00]) = GL_FALSE"
  shows "LoadShaderProgram gl vertShader fragShader s =
     (Inl (''Failed to link the program!'' @ [CHR 0x0A]
             @ program_info_log gl (vertShader @ [CHR 0x00]) (fragShader @ [CHR 0x00])),
      s\<lparr>next_name := next_name s + 3,
        calls := calls s @
          [CreateProgram (next_name s), CreateShader VERTEX_SHADER (next_name s + 1),
           ShaderSource (next_name s + 1) (vertShader @ [CHR 0x00]),
           CompileShader (next_name s + 1),
           CreateShader FRAGMENT_SHADER (next_name s + 2),
           ShaderSource (next_name s + 2) (fragShader @ [CHR 0x00]),
           CompileShader (next_name s + 2),
           AttachShader (next_name s) (next_name s + 1),
           AttachShader (next_name s) (next_name s + 2),
           LinkProgram (next_name s),
           Println (''Failed to link the program!'' @ [CHR 0x0A]
             @ program_info_log gl (vertShader @ [CHR 0x00]) (fragShader @ [CHR 0x00])),
           DeleteShader (next_name s + 2), DeleteShader (next_name s + 1)]\<rparr>)"
  using assms by (simp add: LoadShaderProgram_eval)

lemma LoadShaderProgram_success:
  assumes "COMPILE_STATUS gl VERTEX_SHADER (vertShader @ [CHR 0x00]) \<noteq> GL_FALSE"
    and "COMPILE_STATUS gl FRAGMENT_SHADER (fragShader @ [CHR 0x00]) \<noteq> GL_FALSE"
    and "LINK_STATUS gl (vertShader @ [CHR 0x00]) (fragShader @ [CHR 0x00]) \<noteq> GL_FALSE"
  shows "LoadShaderProgram gl vertShader fragShader s =
     (Inr (next_name s),
      s\<lparr>next_name := next_name s + 3,
        calls := calls s @
          [CreateProgram (next_name s), CreateShader VERTEX_SHADER (next_name s + 1),
           ShaderSource (next_name s + 1) (vertShader @ [CHR 0x00]),
           CompileShader (next_name s + 1),
           CreateShader FRAGMENT_SHADER (next_name s + 2),
           ShaderSource (next_name s + 2) (fragShader @ [CHR 0x00]),
           CompileShader (next_name s + 2),
           AttachShader (next_name s) (next_name s + 1),
           AttachShader (next_name s) (next_name s + 2),
           LinkProgram (next_name s),
           DeleteShader (next_name s + 2), DeleteShader (next_name s + 1)]\<rparr>)"
  using assms by (simp add: LoadShaderProgram_eval)

text \<open>The calls one run of the loader adds to the record.\<close>

lemma LoadShaderProgram_releases:
  "unreleased_shaders
     (drop (length (calls s)) (calls (snd (LoadShaderProgram gl vertShader fragShader s)))) =
   (if COMPILE_STATUS gl VERTEX_SHADER (vertShader @ [CHR 0x00]) = GL_FALSE
      then [next_name s + 1]
    else if COMPILE_STATUS gl FRAGMENT_SHADER (fragShader @ [CHR 0x00]) = GL_FALSE
      then [next_name s + 2]
    else [])"
proof (cases "COMPILE_STATUS gl VERTEX_SHADER (vertShader @ [CHR 0x00]) = GL_FALSE")
  case True
  then show ?thesis by (simp add: LoadShaderProgram_vertex_failure)
next
  case v: False
  show ?thesis
  proof (cases "COMPILE_STATUS gl FRAGMENT_SHADER (fragShader @ [CHR 0x00]) = GL_FALSE")
    case True
    with v show ?thesis by (simp add: LoadShaderProgram_fragment_failure)
  next
    case f: False
    show ?thesis
    proof (cases "LINK_STATUS gl (vertShader @ [CHR 0x00]) (fragShader @ [CHR 0x00]) = GL_FALSE")
      case True
      with v f show ?thesis by (simp add: LoadShaderProgram_link_failure)
    next
      case False
      with v f show ?thesis by (simp add: LoadShaderProgram_success)
    qed
  qed
qed

text \<open>
  C3. Release of the two per-stage shader objects on the exit paths of the loader. It
  registers each deferred \<^verbatim>\<open>gl.DeleteShader\<close> only after the stage's
  compile check, so the return of a failed check leaves that stage's shader object
  unreleased: with a vertex source the driver rejects, shader 2 is created and never
  deleted; with a rejected fragment source, shader 3 is. A link failure and a success
  release both.
\<close>

theorem vertex_failure_leaks_shader:
  "fst (LoadShaderProgram strict_compiler ''void main() {'' ''void main() {}'' gl_start)
     = Inl (''Failed to compile the vertex shader!'' @ [CHR 0x0A] @ ''0:1: syntax error'' @ [CHR 0x00]) \<and>
   calls (snd (LoadShaderProgram strict_compiler ''void main() {'' ''void main() {}'' gl_start))
     = [CreateProgram 1, CreateShader VERTEX_SHADER 2,
        ShaderSource 2 (''void main() {'' @ [CHR 0x00]), CompileShader 2,
        Println (''Failed to compile the vertex shader!'' @ [CHR 0x0A] @ ''0:1: syntax error'' @ [CHR 0x00])] \<and>
   unreleased_shaders
     (calls (snd (LoadShaderProgram strict_compiler ''void main() {'' ''void main() {}'' gl_start)))
     = [2] \<and>
   unreleased_shaders
     (calls (snd (LoadShaderProgram strict_compiler ''void main() {}'' ''void main() {'' gl_start)))
     = [3] \<and>
   unreleased_shaders
     (calls (snd (LoadShaderProgram strict_compiler ''void main() {}'' ''in vec4 missing;'' gl_start)))
     = [] \<and>
   unreleased_shaders
     (calls (snd (LoadShaderProgram strict_compiler ''void main() {}'' ''void main() {}'' gl_start)))
     = []"
  by (simp add: LoadShaderProgram_eval GL_FALSE_def gl_start_def strict_compiler_def)

section \<open>Cube builder: properties\<close>

lemmas CreateCube_eval =
  CreateCube_def Let_def glGenVertexArrays_def glGenBuffers_def glBindBuffer_def
  glBufferData_def

lemma CreateCube_handles:
  "fst (CreateCube xmin ymin zmin xmax ymax zmax s0) =
     NewRenderable\<lparr>Vao := next_buffer s0, FaceCount := 12, VertVBO := next_buffer s0 + 1,
        UvVBO := next_buffer s0 + 2, NormsVBO := next_buffer s0 + 3,
        ElementsVBO := next_buffer s0 + 4\<rparr>"
  by (simp add: CreateCube_eval add.commute [of "next_buffer s0"])

lemma CreateCube_store:
  "store (snd (CreateCube xmin ymin zmin xmax ymax zmax s0)) =
     (store s0)
       (next_buffer s0 + 1 \<mapsto> (4 * int (length (cube_verts xmin ymin zmin xmax ymax zmax)),
                                  Floats (cube_verts xmin ymin zmin xmax ymax zmax)),
        next_buffer s0 + 2 \<mapsto> (4 * int (length (cube_uvs :: 'a list)), Floats cube_uvs),
        next_buffer s0 + 3 \<mapsto> (4 * int (length (cube_normals :: 'a list)), Floats cube_normals),
        next_buffer s0 + 4 \<mapsto> (4 * int (length cube_indexes), Uints cube_indexes))"
  for xmin :: "'a::{zero,one,uminus}"
  by (simp add: CreateCube_eval add.commute [of "next_buffer s0"])

lemma length_cube_verts: "length (cube_verts a b c d e f) = 72" by (simp add: cube_verts_def)
lemma length_cube_indexes: "length cube_indexes = 36" by (simp add: cube_indexes_def)
lemma cube_indexes_bound: "list_all (\<lambda>i. i < 24) cube_indexes" by (simp add: cube_indexes_def)
lemma length_triples_cube_verts: "length (triples (cube_verts a b c d e f)) = 24" by (simp add: cube_verts_def)

text \<open>
  C4. For all corner coordinates the cube has 24 vertex positions (72 floats, uploaded
  to the vertex buffer with their byte size), 36 triangle indexes (uploaded to the
  element buffer), a face count of 12, and every index is below 24.
\<close>

theorem cube_mesh_counts:
  "(case CreateCube xmin ymin zmin xmax ymax zmax s0 of (r, s) \<Rightarrow>
      store s (VertVBO r) = Some (288, Floats (cube_verts xmin ymin zmin xmax ymax zmax)) \<and>
      store s (ElementsVBO r) = Some (144, Uints cube_indexes) \<and>
      FaceCount r = 12 \<and> 3 * FaceCount r = int (length cube_indexes)) \<and>
   length (cube_verts xmin ymin zmin xmax ymax zmax) = 3 * 24 \<and>
   length (triples (cube_verts xmin ymin zmin xmax ymax zmax)) = 24 \<and>
   length cube_indexes = 36 \<and>
   list_all (\<lambda>i. i < 24) cube_indexes"
  for xmin :: "'a::{zero,one,uminus}"
proof -
  have "store (snd (CreateCube xmin ymin zmin xmax ymax zmax s0))
          (VertVBO (fst (CreateCube xmin ymin zmin xmax ymax zmax s0)))
        = Some (288, Floats (cube_verts xmin ymin zmin xmax ymax zmax))"
    by (simp add: CreateCube_handles CreateCube_store length_cube_verts)
  moreover have "store (snd (CreateCube xmin ymin zmin xmax ymax zmax s0))
          (ElementsVBO (fst (CreateCube xmin ymin zmin xmax ymax zmax s0)))
        = Some (144, Uints cube_indexes)"
    by (simp add: CreateCube_handles CreateCube_store length_cube_indexes)
  moreover have "FaceCount (fst (CreateCube xmin ymin zmin xmax ymax zmax s0)) = 12"
    by (simp add: CreateCube_handles)
  ultimately show ?thesis
    by (simp add: case_prod_beta length_cube_verts length_cube_indexes cube_indexes_bound length_triples_cube_verts)
qed


lemma face_normals:
  "face 0 (cube_normals :: ('a::{zero,one,uminus}) list) = replicate 4 (Vec3 0 0 1)"
  "face 1 (cube_normals :: 'a list) = replicate 4 (Vec3 1 0 0)"
  "face 2 (cube_normals :: 'a list) = replicate 4 (Vec3 0 1 0)"
  "face 3 (cube_normals :: 'a list) = replicate 4 (Vec3 (- 1) 0 0)"
  "face 4 (cube_normals :: 'a list) = replicate 4 (Vec3 0 (- 1) 0)"
  "face 5 (cube_normals :: 'a list) = replicate 4 (Vec3 0 0 (- 1))"
  by (simp_all add: face_def cube_normals_def numeral_eq_Suc)

lemma face_verts:
  "face 0 (cube_verts xmin ymin zmin xmax ymax zmax) =
     [Vec3 xmax ymax zmax, Vec3 xmin ymax zmax, Vec3 xmin ymin zmax, Vec3 xmax ymin zmax]"
  "face 1 (cube_verts xmin ymin zmin xmax ymax zmax) =
     [Vec3 xmax ymax zmin, Vec3 xmax ymax zmax, Vec3 xmax ymin zmax, Vec3 xmax ymin zmin]"
  "face 2 (cube_verts xmin ymin zmin xmax ymax zmax) =
     [Vec3 xmax ymax zmin, Vec3 xmin ymax zmin, Vec3 xmin ymax zmax, Vec3 xmax ymax zmax]"
  "face 3 (cube_verts xmin ymin zmin xmax ymax zmax) =
     [Vec3 xmin ymax zmax, Vec3 xmin ymax zmin, Vec3 xmin ymin zmin, Vec3 xmin ymin zmax]"
  "face 4 (cube_verts xmin ymin zmin xmax ymax zmax) =
     [Vec3 xmax ymin zmax, Vec3 xmin ymin zmax, Vec3 xmin ymin zmin, Vec3 xmax ymin zmin]"
  "face 5 (cube_verts xmin ymin zmin xmax ymax zmax) =
     [Vec3 xmin ymax zmin, Vec3 xmax ymax zmin, Vec3 xmax ymin zmin, Vec3 xmin ymin zmin]"
  by (simp_all add: face_def cube_verts_def numeral_eq_Suc)

text \<open>
  C5. The normals buffer holds 24 normals. The four normals of each of the six faces
  are the same vector, one of the six axis-aligned unit vectors. The faces 0 and 5 lie
  in the planes \<open>z = zmax\<close> and \<open>z = zmin\<close>, the faces 1 and 3 in \<open>x = xmax\<close> and
  \<open>x = xmin\<close>, the faces 2 and 4 in \<open>y = ymax\<close> and \<open>y = ymin\<close>, and the normals of
  the two faces of each pair are negations of each other.
\<close>

theorem cube_face_normals:
  fixes xmin :: "'a::ring_1"
  shows
  "(case CreateCube xmin ymin zmin xmax ymax zmax s0 of (r, s) \<Rightarrow>
      store s (NormsVBO r) = Some (288, Floats cube_normals)) \<and>
   length (cube_normals :: 'a list) = 3 * 24 \<and>
   map (\<lambda>k. face k (cube_normals :: 'a list)) [0, 1, 2, 3, 4, 5] =
     [replicate 4 (Vec3 0 0 1), replicate 4 (Vec3 1 0 0), replicate 4 (Vec3 0 1 0),
      replicate 4 (Vec3 (- 1) 0 0), replicate 4 (Vec3 0 (- 1) 0), replicate 4 (Vec3 0 0 (- 1))] \<and>
   list_all (\<lambda>k. hd (face k (cube_normals :: 'a list)) \<in> set axis_units) [0, 1, 2, 3, 4, 5] \<and>
   face 5 (cube_normals :: 'a list) = map neg_Vec3 (face 0 cube_normals) \<and>
   face 3 (cube_normals :: 'a list) = map neg_Vec3 (face 1 cube_normals) \<and>
   face 4 (cube_normals :: 'a list) = map neg_Vec3 (face 2 cube_normals) \<and>
   list_all (\<lambda>v. at2 v = zmax) (face 0 (cube_verts xmin ymin zmin xmax ymax zmax)) \<and>
   list_all (\<lambda>v. at2 v = zmin) (face 5 (cube_verts xmin ymin zmin xmax ymax zmax)) \<and>
   list_all (\<lambda>v. at0 v = xmax) (face 1 (cube_verts xmin ymin zmin xmax ymax zmax)) \<and>
   list_all (\<lambda>v. at0 v = xmin) (face 3 (cube_verts xmin ymin zmin xmax ymax zmax)) \<and>
   list_all (\<lambda>v. at1 v = ymax) (face 2 (cube_verts xmin ymin zmin xmax ymax zmax)) \<and>
   list_all (\<lambda>v. at1 v = ymin) (face 4 (cube_verts xmin ymin zmin xmax ymax zmax))"
proof -
  have len: "length (cube_normals :: 'a list) = 72"
    by (simp add: cube_normals_def)
  have "store (snd (CreateCube xmin ymin zmin xmax ymax zmax s0))
          (NormsVBO (fst (CreateCube xmin ymin zmin xmax ymax zmax s0)))
        = Some (288, Floats cube_normals)"
    by (simp add: CreateCube_handles CreateCube_store len)
  then have up: "case CreateCube xmin ymin zmin xmax ymax zmax s0 of (r, s) \<Rightarrow>
      store s (NormsVBO r) = Some (288, Floats cube_normals)"
    by (simp add: case_prod_beta)
  have units: "list_all (\<lambda>k. hd (face k (cube_normals :: 'a list)) \<in> set axis_units) [0, 1, 2, 3, 4, 5]"
    by (simp add: face_normals axis_units_def del: One_nat_def)
  have opp: "face 5 (cube_normals :: 'a list) = map neg_Vec3 (face 0 cube_normals)"
    "face 3 (cube_normals :: 'a list) = map neg_Vec3 (face 1 cube_normals)"
    "face 4 (cube_normals :: 'a list) = map neg_Vec3 (face 2 cube_normals)"
    by (simp_all add: face_normals neg_Vec3_def del: One_nat_def)
  have planes:
    "list_all (\<lambda>v. at2 v = zmax) (face 0 (cube_verts xmin ymin zmin xmax ymax zmax))"
    "list_all (\<lambda>v. at2 v = zmin) (face 5 (cube_verts xmin ymin zmin xmax ymax zmax))"
    "list_all (\<lambda>v. at0 v = xmax) (face 1 (cube_verts xmin ymin zmin xmax ymax zmax))"
    "list_all (\<lambda>v. at0 v = xmin) (face 3 (cube_verts xmin ymin zmin xmax ymax zmax))"
    "list_all (\<lambda>v. at1 v = ymax) (face 2 (cube_verts xmin ymin zmin xmax ymax zmax))"
    "list_all (\<lambda>v. at1 v = ymin) (face 4 (cube_verts xmin ymin zmin xmax ymax zmax))"
    by (simp_all add: face_verts del: One_nat_def)
  show ?thesis
    using up units opp planes by (simp add: len face_normals del: One_nat_def)
qed

section \<open>Physics update: properties\<close>

lemma updateObjects_result:
  "updateObjects phys delta g =
     (let c = CalculateDerivedData phys
                ((cubeCollider g)\<lparr>Body := Integrate phys (Real_of phys delta) (Body (cubeCollider g))\<rparr>)
      in g\<lparr>cubeCollider := c,
            physics_calls := physics_calls g @
              [Integrate_call (Real_of phys delta), CalculateDerivedData_call],
            cube := (cube g)
              \<lparr>Location := Vec3 (float32_of phys (at0 (Position (Body c))))
                               (float32_of phys (at1 (Position (Body c))))
                               (float32_of phys (at2 (Position (Body c)))),
               LocalRotation :=
                 \<lparr>W = float32_of phys (qat0 (Orientation (Body c))),
                  V = Vec3 (float32_of phys (qat1 (Orientation (Body c))))
                           (float32_of phys (qat2 (Orientation (Body c))))
                           (float32_of phys (qat3 (Orientation (Body c))))\<rparr>\<rparr>\<rparr>)"
  by (simp add: updateObjects_def Let_def)

text \<open>
  C7. One update step integrates the body by the delta, recalculates the collider's
  derived data, copies the body's position and orientation, as they are then, into the
  renderable's \<open>Location\<close> and \<open>LocalRotation\<close>, checks the collider against the ground
  plane with normal \<open>(0, 1, 0)\<close> and offset \<open>0\<close>, and calls the contact resolution, with
  an iteration budget of 8 times the number of contacts, if and only if the check
  reported contacts. The package receives exactly these calls, in this order.
\<close>

theorem update_step_sequence:
  fixes phys :: "('d, 'f, 'r::{zero,one}, 'b, 'c, 'p, 'k) cubez"
  shows
  "(let d = Real_of phys delta;
        c = CalculateDerivedData phys
              ((cubeCollider g)\<lparr>Body := Integrate phys d (Body (cubeCollider g))\<rparr>);
        groundPlane = NewCollisionPlane phys (Vec3 0 1 0) 0;
        (foundContacts, contacts) = CheckAgainstHalfSpace phys c groundPlane [];
        g' = updateCallback phys delta g
    in physics_calls g' =
         physics_calls g @
           [Integrate_call d, CalculateDerivedData_call, CheckAgainstHalfSpace_call groundPlane] @
           (if foundContacts
            then [ResolveContacts_call (8 * int (length contacts)) contacts d] else []) \<and>
       Location (cube g') =
         Vec3 (float32_of phys (at0 (Position (Body c))))
              (float32_of phys (at1 (Position (Body c))))
              (float32_of phys (at2 (Position (Body c)))) \<and>
       LocalRotation (cube g') =
         \<lparr>W = float32_of phys (qat0 (Orientation (Body c))),
          V = Vec3 (float32_of phys (qat1 (Orientation (Body c))))
                   (float32_of phys (qat2 (Orientation (Body c))))
                   (float32_of phys (qat3 (Orientation (Body c))))\<rparr> \<and>
       cubeCollider g' =
         (if foundContacts then ResolveContacts phys (8 * int (length contacts)) contacts d c
          else c))"
  by (simp add: updateCallback_def generateContacts_def updateObjects_result Let_def
      case_prod_beta mult.commute)

text \<open>Two steps of a body that falls from height 4 by the delta per step: the first
  finds no contact; the second does, and the renderable shows the position before the
  resolution.\<close>

lemma update_step_example:
  "physics_calls (updateCallback falling_point 3 falling_start) =
     [Integrate_call 3, CalculateDerivedData_call,
      CheckAgainstHalfSpace_call (Vec3 0 1 0, 0)] \<and>
   Location (cube (updateCallback falling_point 3 falling_start)) = Vec3 0 1 0 \<and>
   physics_calls (updateCallback falling_point 3 (updateCallback falling_point 3 falling_start)) =
     [Integrate_call 3, CalculateDerivedData_call,
      CheckAgainstHalfSpace_call (Vec3 0 1 0, 0),
      Integrate_call 3, CalculateDerivedData_call,
      CheckAgainstHalfSpace_call (Vec3 0 1 0, 0), ResolveContacts_call 8 [2] 3] \<and>
   Location (cube (updateCallback falling_point 3 (updateCallback falling_point 3 falling_start)))
     = Vec3 0 (- 2) 0 \<and>
   Position (Body (cubeCollider
       (updateCallback falling_point 3 (updateCallback falling_point 3 falling_start))))
     = Vec3 0 0 0"
  by (simp add: updateCallback_def generateContacts_def updateObjects_def Let_def
      falling_point_def falling_start_def NewRenderable_def zero_Renderable_def)

section \<open>Render loop: properties\<close>

lemma call_back_world:
  "world (call_back cb ev d st) = run_callback cb d (world st)"
  by (simp add: call_back_def run_callback_def log_event_def split: option.split)

lemma call_back_events:
  "events (call_back cb ev d st) = events st @ callback_events cb (ev d)"
  by (simp add: call_back_def callback_events_def log_event_def split: option.split)

lemma call_back_clock:
  "lastRenderTime (call_back cb ev d st) = lastRenderTime st"
  "clock_reads (call_back cb ev d st) = clock_reads st"
  by (simp_all add: call_back_def log_event_def split: option.split)

lemma loop_body_events:
  "events (loop_body app env st) =
     events st @ callback_events (OnUpdate app) (OnUpdate_called (next_delta env st))
       @ callback_events (OnRender app) (OnRender_called (next_delta env st))
       @ [SwapBuffers_called, PollEvents_called]"
  by (simp add: loop_body_def Let_def log_event_def call_back_events next_delta_def)

lemma loop_body_world:
  "world (loop_body app env st) =
     PollEvents env (run_callback (OnRender app) (next_delta env st)
       (run_callback (OnUpdate app) (next_delta env st) (world st)))"
  by (simp add: loop_body_def Let_def log_event_def call_back_world next_delta_def)

lemma loop_body_clock:
  "lastRenderTime (loop_body app env st) = Now env (clock_reads st)"
  "clock_reads (loop_body app env st) = Suc (clock_reads st)"
  by (simp_all add: loop_body_def Let_def log_event_def call_back_clock)

lemma log_event_simps:
  "world (log_event e st) = world st"
  "lastRenderTime (log_event e st) = lastRenderTime st"
  "clock_reads (log_event e st) = clock_reads st"
  "events (log_event e st) = events st @ [e]"
  "next_delta env (log_event e st) = next_delta env st"
  by (simp_all add: log_event_def next_delta_def)

lemma time_Sub_nonneg: "u \<le> t \<Longrightarrow> 0 \<le> time_Sub t u"
  by (simp add: time_Sub_def Let_def)

lemma delta_seconds_nonneg: "0 \<le> n \<Longrightarrow> 0 \<le> delta_seconds n"
  by (simp add: delta_seconds_def)

lemma clock_inv_nanos:
  assumes mono: "\<forall>k. Now env k \<le> Now env (Suc k)" and inv: "clock_inv env st"
  shows "0 \<le> time_Sub (Now env (clock_reads st)) (lastRenderTime st)"
proof -
  from inv obtain k where k: "clock_reads st = Suc k" and l: "lastRenderTime st = Now env k"
    by (cases "clock_reads st") (auto simp: clock_inv_def)
  from mono have "Now env k \<le> Now env (Suc k)" by blast
  then show ?thesis
    by (simp add: k l time_Sub_nonneg)
qed

lemma clock_inv_next_delta:
  assumes mono: "\<forall>k. Now env k \<le> Now env (Suc k)" and inv: "clock_inv env st"
  shows "0 \<le> next_delta env st"
  unfolding next_delta_def
  by (rule delta_seconds_nonneg [OF clock_inv_nanos [OF mono inv]])

lemma callback_events_nonneg:
  "0 \<le> event_delta e \<Longrightarrow> list_all (\<lambda>e. 0 \<le> event_delta e) (callback_events cb e)"
  by (simp add: callback_events_def split: option.split)

lemma clock_inv_step:
  assumes mono: "\<forall>k. Now env k \<le> Now env (Suc k)" and inv: "clock_inv env st"
  shows "clock_inv env (loop_body app env (log_event (ShouldClose_checked b) st))"
proof -
  have d: "0 \<le> next_delta env st"
    by (rule clock_inv_next_delta [OF mono inv])
  from inv have ev: "list_all (\<lambda>e. 0 \<le> event_delta e) (events st)"
    by (simp add: clock_inv_def)
  show ?thesis
    using d ev
    by (simp add: clock_inv_def loop_body_clock loop_body_events log_event_simps
        callback_events_nonneg)
qed

lemma clock_inv_start: "clock_inv env (loop_start env w)"
  by (simp add: clock_inv_def loop_start_def)

lemma clock_inv_after_frames:
  assumes mono: "\<forall>k. Now env k \<le> Now env (Suc k)"
  shows "clock_inv env st \<Longrightarrow> clock_inv env (after_frames n app env st)"
  by (induction n arbitrary: st) (simp_all add: clock_inv_step [OF mono])

lemma loop_Some_after_frames:
  "loop app env st = Some st' \<Longrightarrow>
   \<exists>n. ShouldClose (world (after_frames n app env st)) \<and>
       st' = log_event (ShouldClose_checked True) (after_frames n app env st)"
proof (induction app env st st' rule: loop.raw_induct [rotated 1, consumes 1])
  case (1 loop' app env st st')
  show ?case
  proof (cases "ShouldClose (world st)")
    case True
    with 1(2) have "st' = log_event (ShouldClose_checked True) st" by simp
    with True have "ShouldClose (world (after_frames 0 app env st)) \<and>
       st' = log_event (ShouldClose_checked True) (after_frames 0 app env st)" by simp
    then show ?thesis by blast
  next
    case False
    with 1(2) have "loop' app env (loop_body app env (log_event (ShouldClose_checked False) st)) = Some st'"
      by simp
    from 1(1) [OF this] obtain n where
      "ShouldClose (world (after_frames n app env (loop_body app env (log_event (ShouldClose_checked False) st))))"
      "st' = log_event (ShouldClose_checked True)
               (after_frames n app env (loop_body app env (log_event (ShouldClose_checked False) st)))"
      by blast
    with False have "ShouldClose (world (after_frames (Suc n) app env st)) \<and>
       st' = log_event (ShouldClose_checked True) (after_frames (Suc n) app env st)" by simp
    then show ?thesis by blast
  qed
qed

lemma after_frames_loop:
  "ShouldClose (world (after_frames n app env st)) \<Longrightarrow>
   loop app env st = Some (log_event (ShouldClose_checked True) (after_frames n app env st))"
proof (induction n arbitrary: st)
  case 0
  then show ?case by (simp add: loop.simps)
next
  case (Suc n)
  show ?case
  proof (cases "ShouldClose (world st)")
    case True
    then show ?thesis by (simp add: loop.simps)
  next
    case False
    with Suc.prems have
      "ShouldClose (world (after_frames n app env (loop_body app env (log_event (ShouldClose_checked False) st))))"
      by simp
    from Suc.IH [OF this] False show ?thesis
      by (subst loop.simps) simp
  qed
qed


text \<open>
  C8. Each pass through the loop starts with the check of the should-close flag. When
  the flag is set the loop ends there and calls nothing. Otherwise the pass calls the
  update callback, then the render callback (each when it is not nil) with the same
  delta, then swaps the buffers, then polls the events, whatever the callbacks do to the
  flag in between; a flag set during the pass ends the loop at the check that opens the
  next pass.
\<close>

theorem render_loop_iteration_order:
  "(ShouldClose (world st) \<longrightarrow>
      loop app env st = Some (log_event (ShouldClose_checked True) st)) \<and>
   (\<not> ShouldClose (world st) \<longrightarrow>
      loop app env st =
        loop app env (loop_body app env (log_event (ShouldClose_checked False) st)) \<and>
      events (loop_body app env (log_event (ShouldClose_checked False) st)) =
        events st @ [ShouldClose_checked False]
          @ callback_events (OnUpdate app) (OnUpdate_called (next_delta env st))
          @ callback_events (OnRender app) (OnRender_called (next_delta env st))
          @ [SwapBuffers_called, PollEvents_called] \<and>
      world (loop_body app env (log_event (ShouldClose_checked False) st)) =
        PollEvents env
          (run_callback (OnRender app) (next_delta env st)
             (run_callback (OnUpdate app) (next_delta env st) (world st)))) \<and>
   (\<not> ShouldClose (world st) \<and>
    ShouldClose (world (loop_body app env (log_event (ShouldClose_checked False) st))) \<longrightarrow>
      loop app env st =
        Some (log_event (ShouldClose_checked True)
                (loop_body app env (log_event (ShouldClose_checked False) st))))"
proof (intro conjI impI)
  show "loop app env st = Some (log_event (ShouldClose_checked True) st)"
    if "ShouldClose (world st)"
    using that by (subst loop.simps) simp
  show "loop app env st =
        loop app env (loop_body app env (log_event (ShouldClose_checked False) st))"
    if "\<not> ShouldClose (world st)"
    using that by (subst loop.simps) simp
  show "events (loop_body app env (log_event (ShouldClose_checked False) st)) =
        events st @ [ShouldClose_checked False]
          @ callback_events (OnUpdate app) (OnUpdate_called (next_delta env st))
          @ callback_events (OnRender app) (OnRender_called (next_delta env st))
          @ [SwapBuffers_called, PollEvents_called]"
    by (simp add: loop_body_events log_event_simps)
  show "world (loop_body app env (log_event (ShouldClose_checked False) st)) =
        PollEvents env
          (run_callback (OnRender app) (next_delta env st)
             (run_callback (OnUpdate app) (next_delta env st) (world st)))"
    by (simp add: loop_body_world log_event_simps)
  show "loop app env st =
        Some (log_event (ShouldClose_checked True)
                (loop_body app env (log_event (ShouldClose_checked False) st)))"
    if "\<not> ShouldClose (world st) \<and>
        ShouldClose (world (loop_body app env (log_event (ShouldClose_checked False) st)))"
  proof -
    from that have "loop app env st =
        loop app env (loop_body app env (log_event (ShouldClose_checked False) st))"
      by (subst loop.simps) simp
    also from that have "\<dots> = Some (log_event (ShouldClose_checked True)
                (loop_body app env (log_event (ShouldClose_checked False) st)))"
      by (subst loop.simps) simp
    finally show ?thesis .
  qed
qed

lemmas render_loop_eval =
  loop_body_def Let_def log_event_def call_back_def loop_start_def closing_app_def
  steady_platform_def next_delta_def time_Sub_def delta_seconds_def run_callback_def
  callback_events_def

theorem render_loop_iteration_order_witness:
  "RenderLoop closing_app steady_platform \<lparr>ShouldClose = False, app_data = 0\<rparr> =
     Some \<lparr>world = \<lparr>ShouldClose = True, app_data = 1\<rparr>,
           lastRenderTime = 16000000, clock_reads = 2,
           events = [ShouldClose_checked False, OnUpdate_called (2 / 125),
                     OnRender_called (2 / 125), SwapBuffers_called, PollEvents_called,
                     ShouldClose_checked True]\<rparr> \<and>
   RenderLoop closing_app steady_platform \<lparr>ShouldClose = True, app_data = 0\<rparr> =
     Some \<lparr>world = \<lparr>ShouldClose = True, app_data = 0\<rparr>,
           lastRenderTime = 0, clock_reads = 1,
           events = [ShouldClose_checked True]\<rparr>"
proof -
  let ?open = "loop_start steady_platform \<lparr>ShouldClose = False, app_data = 0\<rparr>"
  let ?closed = "loop_start steady_platform \<lparr>ShouldClose = True, app_data = 0\<rparr>"
  have a: "\<not> ShouldClose (world ?open) \<and>
     ShouldClose (world (loop_body closing_app steady_platform
                    (log_event (ShouldClose_checked False) ?open)))"
    by (simp add: render_loop_eval)
  have b: "ShouldClose (world ?closed)"
    by (simp add: render_loop_eval)
  from a render_loop_iteration_order [of ?open closing_app steady_platform]
  have "loop closing_app steady_platform ?open =
        Some (log_event (ShouldClose_checked True)
                (loop_body closing_app steady_platform
                   (log_event (ShouldClose_checked False) ?open)))"
    by blast
  moreover from b render_loop_iteration_order [of ?closed closing_app steady_platform]
  have "loop closing_app steady_platform ?closed =
        Some (log_event (ShouldClose_checked True) ?closed)"
    by blast
  ultimately show ?thesis
    by (simp add: RenderLoop_def render_loop_eval)
qed

text \<open>
  C9. The last-sample timestamp is set from the clock before the loop starts, so the
  first pass subtracts two clock readings. When the clock never runs backwards, the
  nanosecond difference and the delta in seconds are non-negative in every pass, the
  first included, and no callback is ever handed a negative delta.
\<close>

theorem frame_delta_nonnegative:
  assumes mono: "\<forall>k. Now env k \<le> Now env (Suc k)"
  shows "lastRenderTime (loop_start env w) = Now env 0 \<and>
         next_delta env (loop_start env w) = delta_seconds (time_Sub (Now env 1) (Now env 0)) \<and>
         0 \<le> time_Sub (Now env (clock_reads (after_frames n app env (loop_start env w))))
               (lastRenderTime (after_frames n app env (loop_start env w))) \<and>
         0 \<le> next_delta env (after_frames n app env (loop_start env w)) \<and>
         list_all (\<lambda>e. 0 \<le> event_delta e) (events (after_frames n app env (loop_start env w))) \<and>
         (case RenderLoop app env w of
            None \<Rightarrow> True
          | Some st' \<Rightarrow> list_all (\<lambda>e. 0 \<le> event_delta e) (events st'))"
proof -
  have inv: "clock_inv env (after_frames m app env (loop_start env w))" for m
    by (rule clock_inv_after_frames [OF mono clock_inv_start])
  have first: "lastRenderTime (loop_start env w) = Now env 0"
    "next_delta env (loop_start env w) = delta_seconds (time_Sub (Now env 1) (Now env 0))"
    by (simp_all add: loop_start_def next_delta_def)
  have nanos: "0 \<le> time_Sub (Now env (clock_reads (after_frames n app env (loop_start env w))))
               (lastRenderTime (after_frames n app env (loop_start env w)))"
    by (rule clock_inv_nanos [OF mono inv])
  have every: "0 \<le> next_delta env (after_frames n app env (loop_start env w))"
    by (rule clock_inv_next_delta [OF mono inv])
  have handed: "list_all (\<lambda>e. 0 \<le> event_delta e) (events (after_frames n app env (loop_start env w)))"
    using inv [of n] by (simp add: clock_inv_def)
  have final: "case RenderLoop app env w of
            None \<Rightarrow> True
          | Some st' \<Rightarrow> list_all (\<lambda>e. 0 \<le> event_delta e) (events st')"
  proof (cases "RenderLoop app env w")
    case None
    then show ?thesis by simp
  next
    case (Some st')
    then have "loop app env (loop_start env w) = Some st'"
      by (simp add: RenderLoop_def)
    from loop_Some_after_frames [OF this] obtain m where
      "st' = log_event (ShouldClose_checked True) (after_frames m app env (loop_start env w))"
      by blast
    with inv [of m] Some show ?thesis
      by (simp add: clock_inv_def log_event_simps)
  qed
  from first nanos every handed final show ?thesis by simp
qed

theorem frame_delta_nonnegative_witness:
  "lastRenderTime (loop_start steady_platform \<lparr>ShouldClose = False, app_data = 0\<rparr>) = 0 \<and>
   next_delta steady_platform (loop_start steady_platform \<lparr>ShouldClose = False, app_data = 0\<rparr>)
     = 2 / 125 \<and>
   0 \<le> next_delta steady_platform
         (after_frames 2 closing_app steady_platform
            (loop_start steady_platform \<lparr>ShouldClose = False, app_data = 0\<rparr>)) \<and>
   events (after_frames 2 closing_app steady_platform
            (loop_start steady_platform \<lparr>ShouldClose = False, app_data = 0\<rparr>))
     = [ShouldClose_checked False, OnUpdate_called (2 / 125), OnRender_called (2 / 125),
        SwapBuffers_called, PollEvents_called]"
proof -
  have mono: "\<forall>k. Now steady_platform k \<le> Now steady_platform (Suc k)"
    by (simp add: steady_platform_def)
  have ev: "events (after_frames 2 closing_app steady_platform
            (loop_start steady_platform \<lparr>ShouldClose = False, app_data = 0\<rparr>))
     = [ShouldClose_checked False, OnUpdate_called (2 / 125), OnRender_called (2 / 125),
        SwapBuffers_called, PollEvents_called]"
    by (simp add: numeral_2_eq_2 render_loop_eval)
  from frame_delta_nonnegative [OF mono, of "\<lparr>ShouldClose = False, app_data = 0\<rparr>" 2 closing_app]
  show ?thesis
    using ev by (simp add: steady_platform_def time_Sub_def delta_seconds_def)
qed

section \<open>The fresh Renderable\<close>

lemma NewRenderable_fields:
  "Scale (NewRenderable :: ('a::{zero,one}) Renderable) = Vec3 1 1 1"
  "Location (NewRenderable :: 'a Renderable) = Vec3 0 0 0"
  "Rotation (NewRenderable :: 'a Renderable) = \<lparr>W = 0, V = Vec3 0 0 0\<rparr>"
  "LocalRotation (NewRenderable :: 'a Renderable) = \<lparr>W = 0, V = Vec3 0 0 0\<rparr>"
  by (simp_all add: NewRenderable_def zero_Renderable_def)

lemma exact_factors:
  "exact_Quat_Mat4 \<lparr>W = 0, V = Vec3 0 0 0\<rparr> = (Ident4 :: ('a::comm_ring_1) Mat4)"
  "exact_Translate3D 0 0 0 = (Ident4 :: 'a Mat4)"
  "exact_Scale3D 1 1 1 = (Ident4 :: 'a Mat4)"
  "exact_Mul4 Ident4 Ident4 = (Ident4 :: 'a Mat4)"
  by (simp_all add: exact_Quat_Mat4_def exact_Translate3D_def exact_Scale3D_def exact_Mul4_def
      Ident4_def)

text \<open>
  C10 (as amended). \<^verbatim>\<open>NewRenderable\<close> returns a Renderable with scale \<open>(1, 1, 1)\<close>,
  location \<open>(0, 0, 0)\<close> and both quaternions zero-valued. Whenever the library maps
  the zero quaternion, the zero translation and the unit scale to one matrix that is
  idempotent under \<^verbatim>\<open>Mul4\<close>, the world transform of the fresh Renderable is that matrix.
  With mathgl's formulas the zero quaternion gives the identity matrix, and so the world
  transform of the fresh Renderable is the identity matrix.
\<close>

theorem fresh_renderable_transform:
  fixes lib :: "('f::{zero,one}, 'm) mgl"
  shows
  "Scale (NewRenderable :: 'f Renderable) = Vec3 1 1 1 \<and>
   Location (NewRenderable :: 'f Renderable) = Vec3 0 0 0 \<and>
   Rotation (NewRenderable :: 'f Renderable) = \<lparr>W = 0, V = Vec3 0 0 0\<rparr> \<and>
   LocalRotation (NewRenderable :: 'f Renderable) = \<lparr>W = 0, V = Vec3 0 0 0\<rparr> \<and>
   (Quat_Mat4 lib \<lparr>W = 0, V = Vec3 0 0 0\<rparr> = ident \<and> Translate3D lib 0 0 0 = ident \<and>
    Scale3D lib 1 1 1 = ident \<and> Mul4 lib ident ident = ident \<longrightarrow>
      GetTransformMat4 lib NewRenderable = ident) \<and>
   exact_Quat_Mat4 \<lparr>W = 0, V = Vec3 0 0 0\<rparr> = (Ident4 :: 'a Mat4) \<and>
   GetTransformMat4 mgl_exact (NewRenderable :: 'a Renderable) = (Ident4 :: ('a::comm_ring_1) Mat4)"
  by (simp add: NewRenderable_fields GetTransformMat4_def Let_def mgl_exact_def exact_factors)

theorem fresh_renderable_transform_witness:
  "Rotation (NewRenderable :: int Renderable) = \<lparr>W = 0, V = Vec3 0 0 0\<rparr> \<and>
   exact_Quat_Mat4 \<lparr>W = 0, V = Vec3 0 0 0\<rparr> = (Ident4 :: int Mat4) \<and>
   GetTransformMat4 mgl_exact (NewRenderable :: int Renderable) = Ident4"
  using fresh_renderable_transform
          [where lib = "mgl_exact :: (int, int Mat4) mgl" and ident = Ident4 and 'a = int]
  by (simp add: mgl_exact_def exact_factors)

text \<open>
  The world transform of the fresh Renderable is the identity matrix, although its
  rotations are the zero quaternion and not the identity quaternion: the diagonal of
  the rotation matrix is \<open>1 - 2 * 0 * 0 - 2 * 0 * 0 = 1\<close>.
\<close>

theorem fresh_renderable_counterexample:
  "Scale (NewRenderable :: int Renderable) = Vec3 1 1 1 \<and>
   Location (NewRenderable :: int Renderable) = Vec3 0 0 0 \<and>
   Rotation (NewRenderable :: int Renderable) = \<lparr>W = 0, V = Vec3 0 0 0\<rparr> \<and>
   LocalRotation (NewRenderable :: int Renderable) = \<lparr>W = 0, V = Vec3 0 0 0\<rparr> \<and>
   GetTransformMat4 mgl_exact (NewRenderable :: int Renderable)
     = [1, 0, 0, 0,  0, 1, 0, 0,  0, 0, 1, 0,  0, 0, 0, 1] \<and>
   \<not> GetTransformMat4 mgl_exact (NewRenderable :: int Renderable) \<noteq> Ident4"
  by (simp add: GetTransformMat4_def Let_def NewRenderable_fields mgl_exact_def exact_factors)
     (simp add: Ident4_def)


end
